theory Spec2Isabelle
  imports Complex_Main "HOL-Library.AList" "HOL-Library.Sublist"
begin

section \<open>Tables\<close>

text \<open>
  A pandas DataFrame is modelled column-wise, as the ordered list of its labelled columns.
  A column carries its dtype and its cells. The dtypes are int64, float64 and object. A
  cell is a number, an infinity, the missing value \<open>NaN\<close> or a text. An int64 column holds
  integers of 64 bits, a float64 column holds binary64 numbers, infinities and \<open>NaN\<close>, and
  an object column holds text and \<open>NaN\<close>. Boolean and datetime columns are outside the
  model.
\<close>

datatype dtype = Int64 | Float64 | Object

datatype cell = Num real | PInf | NInf | NaN | Str string

datatype column = Col (col_dtype: dtype) (col_cells: "cell list")

type_synonym dataframe = "(string \<times> column) list"

text \<open>\<open>df.columns\<close>\<close>

definition columns :: "dataframe \<Rightarrow> string list" where
  "columns df = map fst df"

text \<open>\<open>len(df)\<close>, \<open>df.shape[0]\<close>: a frame without columns has no rows here.\<close>

definition nrows :: "dataframe \<Rightarrow> nat" where
  "nrows df = (case df of [] \<Rightarrow> 0 | (l, c) # rest \<Rightarrow> length (col_cells c))"

text \<open>\<open>df.empty\<close>: some axis has length zero.\<close>

definition df_empty :: "dataframe \<Rightarrow> bool" where
  "df_empty df \<longleftrightarrow> columns df = [] \<or> nrows df = 0"

text \<open>
  \<open>df[label]\<close>, for a label that occurs: the columns carrying the label. One column is a
  Series; several (a repeated label) are a DataFrame.
\<close>

definition getitem :: "dataframe \<Rightarrow> string \<Rightarrow> column list" where
  "getitem df l = map snd (filter (\<lambda>lc. fst lc = l) df)"

text \<open>
  \<open>df[label]\<close> as a Series. Frames read from files have distinct labels, and the label is
  checked to be present before the Series is used.
\<close>

definition series :: "dataframe \<Rightarrow> string \<Rightarrow> column" where
  "series df l = hd (getitem df l)"

text \<open>
  \<open>pd.api.types.is_numeric_dtype(df[label])\<close>: the dtype of a Series; False for a
  DataFrame, which has no dtype.
\<close>

definition is_numeric_dtype :: "column list \<Rightarrow> bool" where
  "is_numeric_dtype sel = (case sel of [c] \<Rightarrow> col_dtype c \<noteq> Object | _ \<Rightarrow> False)"

text \<open>Python exceptions that the modelled calls raise.\<close>

datatype py_exn = KeyError | ValueError | MergeError | TypeError

section \<open>Machine numbers\<close>

text \<open>
  int64 arithmetic wraps around: the result is the integer from \<open>-2^63\<close> to \<open>2^63 - 1\<close>
  that is congruent modulo \<open>2^64\<close>. The absolute value of \<open>-2^63\<close> is therefore \<open>-2^63\<close>.
\<close>

definition wrap64 :: "int \<Rightarrow> int" where
  "wrap64 n = (n + 2 ^ 63) mod 2 ^ 64 - 2 ^ 63"

definition int64_abs :: "int \<Rightarrow> int" where
  "int64_abs n = wrap64 \<bar>n\<bar>"

text \<open>Rounding to the nearest integer, a tie to the even one.\<close>

definition round_half_even :: "real \<Rightarrow> int" where
  "round_half_even x =
     (let f = \<lfloor>x\<rfloor>; d = x - of_int f
      in if d < 1 / 2 then f else if 1 / 2 < d then f + 1 else if even f then f else f + 1)"

text \<open>
  The exponent of a positive number: the integer \<open>e\<close> with \<open>2^e \<le> x < 2^(e+1)\<close>. From 1 on
  it is the number of times the integer part can be halved before it is 1; below 1 it is
  minus the number of times the number must be doubled to reach 1. Both are counted in at
  most as many steps as given.
\<close>

fun halvings :: "nat \<Rightarrow> int \<Rightarrow> int" where
  "halvings 0 n = 0"
| "halvings (Suc steps) n = (if 2 \<le> n then halvings steps (n div 2) + 1 else 0)"

fun doublings :: "nat \<Rightarrow> real \<Rightarrow> int" where
  "doublings 0 x = 0"
| "doublings (Suc steps) x = (if x < 1 then doublings steps (2 * x) + 1 else 0)"

definition log2_floor :: "real \<Rightarrow> int" where
  "log2_floor x = (if 1 \<le> x then halvings 1100 \<lfloor>x\<rfloor> else - doublings 1100 x)"

definition pow2 :: "int \<Rightarrow> real" where
  "pow2 p = (if 0 \<le> p then 2 ^ nat p else 1 / 2 ^ nat (- p))"

text \<open>
  The binary64 number nearest to a real number (IEEE 754, round to nearest, ties to even).
  A binary64 number has 53 significant bits: a number with the exponent \<open>e\<close> is rounded to
  a multiple of \<open>2^(e-52)\<close>, and of \<open>2^(-1074)\<close> at least. The largest binary64 number is
  \<open>(2^53 - 1) * 2^971\<close>, and a rounded value beyond it is an infinity. This is the
  conversion of an int64 to float64 and the rounding of a float64 operation.
\<close>

definition round_to_multiple :: "real \<Rightarrow> int \<Rightarrow> cell" where
  "round_to_multiple x p =
     (let m = round_half_even (x / pow2 p)
      in if 971 < p \<or> (p = 971 \<and> 2 ^ 53 \<le> \<bar>m\<bar>) then (if 0 < x then PInf else NInf)
         else Num (of_int m * pow2 p))"

definition to_float64 :: "real \<Rightarrow> cell" where
  "to_float64 x =
     (if x = 0 then Num 0
      else round_to_multiple x (max (log2_floor \<bar>x\<bar> - 52) (- 1074)))"

text \<open>float64 subtraction, absolute value and the comparison \<open>a < b\<close>; NaN compares False.\<close>

definition float_sub :: "cell \<Rightarrow> cell \<Rightarrow> cell" where
  "float_sub a b =
     (case a of
        Num x \<Rightarrow> (case b of Num y \<Rightarrow> to_float64 (x - y) | PInf \<Rightarrow> NInf | NInf \<Rightarrow> PInf | _ \<Rightarrow> NaN)
      | PInf \<Rightarrow> (case b of Num y \<Rightarrow> PInf | NInf \<Rightarrow> PInf | _ \<Rightarrow> NaN)
      | NInf \<Rightarrow> (case b of Num y \<Rightarrow> NInf | PInf \<Rightarrow> NInf | _ \<Rightarrow> NaN)
      | _ \<Rightarrow> NaN)"

fun float_abs :: "cell \<Rightarrow> cell" where
  "float_abs (Num x) = Num \<bar>x\<bar>"
| "float_abs PInf = PInf"
| "float_abs NInf = PInf"
| "float_abs x = NaN"

definition float_less :: "cell \<Rightarrow> cell \<Rightarrow> bool" where
  "float_less a b =
     (case a of
        Num x \<Rightarrow> (case b of Num y \<Rightarrow> x < y | PInf \<Rightarrow> True | _ \<Rightarrow> False)
      | NInf \<Rightarrow> (case b of Num y \<Rightarrow> True | PInf \<Rightarrow> True | _ \<Rightarrow> False)
      | _ \<Rightarrow> False)"

text \<open>A cell of an int64 column converted to float64, and the cells of a column as float64.\<close>

fun cell_to_float64 :: "cell \<Rightarrow> cell" where
  "cell_to_float64 (Num x) = to_float64 x"
| "cell_to_float64 x = x"

definition as_float64 :: "column \<Rightarrow> cell list" where
  "as_float64 c = (if col_dtype c = Int64 then map cell_to_float64 (col_cells c) else col_cells c)"

section \<open>The inner join of pandas\<close>

text \<open>
  \<open>df[labels]\<close> with a list of labels: KeyError when a label is missing, otherwise the
  labelled columns in the order of the list.
\<close>

definition select_columns :: "dataframe \<Rightarrow> string list \<Rightarrow> py_exn + dataframe" where
  "select_columns df ls =
     (if \<forall>l \<in> set ls. l \<in> set (columns df)
      then Inr (concat (map (\<lambda>l. filter (\<lambda>lc. fst lc = l) df) ls))
      else Inl KeyError)"

text \<open>
  \<open>pd.merge\<close> refuses to join a text key with a numeric key (ValueError) when both
  sides have rows.
\<close>

definition has_text :: "column \<Rightarrow> bool" where
  "has_text c \<longleftrightarrow> (\<exists>x \<in> set (col_cells c). case x of Str s \<Rightarrow> True | _ \<Rightarrow> False)"

definition merge_keys_compatible :: "column \<Rightarrow> column \<Rightarrow> bool" where
  "merge_keys_compatible lk rk \<longleftrightarrow>
     (col_dtype lk = Object) = (col_dtype rk = Object) \<or> col_cells lk = [] \<or> col_cells rk = [] \<or>
     (if col_dtype lk = Object then \<not> has_text lk else \<not> has_text rk)"

text \<open>
  The key cells as \<open>pd.merge\<close> compares them: when one key column is int64 and the other
  float64, the int64 keys are converted to float64; otherwise the cells are compared as
  they are.
\<close>

definition match_cell :: "column \<Rightarrow> column \<Rightarrow> cell \<Rightarrow> cell" where
  "match_cell c other x =
     (if col_dtype c = Int64 \<and> col_dtype other = Float64 then cell_to_float64 x else x)"

definition match_cells :: "column \<Rightarrow> column \<Rightarrow> cell list" where
  "match_cells c other = map (match_cell c other) (col_cells c)"

text \<open>
  The row pairs of an inner join: every pair of a left row and a right row with equal
  keys, in the order of the left rows. Equal missing keys match each other, as pandas
  has it.
\<close>

definition join_pairs :: "cell list \<Rightarrow> cell list \<Rightarrow> (nat \<times> nat) list" where
  "join_pairs lk rk =
     concat (map (\<lambda>i. map (\<lambda>j. (i, j)) (filter (\<lambda>j. lk ! i = rk ! j) [0..<length rk]))
       [0..<length lk])"

definition nth_cell :: "cell list \<Rightarrow> nat \<Rightarrow> cell" where
  "nth_cell cs i = (if i < length cs then cs ! i else NaN)"

definition take_rows :: "nat list \<Rightarrow> column \<Rightarrow> column" where
  "take_rows idx c = Col (col_dtype c) (map (nth_cell (col_cells c)) idx)"

text \<open>
  \<open>pd.merge(left, right, on=key, suffixes=('_REF', '_OTH'), how='inner')\<close>.
  The key column is kept once, with the cells and the dtype of the left key column. A
  label other than the key that occurs on both sides is overlapping, and only overlapping
  labels get the suffix of their side. pandas raises MergeError when the suffixes make two
  labels of one side equal; it does not compare the labels of the two sides with each
  other.
\<close>

definition merge_inner :: "string \<Rightarrow> dataframe \<Rightarrow> dataframe \<Rightarrow> py_exn + dataframe" where
  "merge_inner key left right =
     (case (getitem left key, getitem right key) of
        ([lk], [rk]) \<Rightarrow>
          if \<not> merge_keys_compatible lk rk then Inl ValueError
          else
            (let rrest = filter (\<lambda>lc. fst lc \<noteq> key) right;
                 overlap = (\<lambda>l. l \<in> set (columns left) \<and> l \<in> set (columns rrest));
                 ps = join_pairs (match_cells lk rk) (match_cells rk lk);
                 lpart = map (\<lambda>lc. (if overlap (fst lc) then fst lc @ ''_REF'' else fst lc,
                                     take_rows (map fst ps) (snd lc))) left;
                 rpart = map (\<lambda>lc. (if overlap (fst lc) then fst lc @ ''_OTH'' else fst lc,
                                     take_rows (map snd ps) (snd lc))) rrest
             in if \<not> distinct (columns lpart) \<or> \<not> distinct (columns rpart) then Inl MergeError
                else Inr (lpart @ rpart))
      | _ \<Rightarrow> Inl KeyError)"

section \<open>perform\_column\_comparison\<close>

text \<open>An entry of \<open>validated_dataframes_data\<close>.\<close>

record vdf =
  filename :: string
  dataframe :: dataframe
  numeric_columns :: "string list"

text \<open>The keys of \<open>comparison_results\<close>: (column, reference file, other file).\<close>

type_synonym result_key = "string \<times> string \<times> string"

text \<open>
  \<open>comparison_results\<close> is a Python dict: an association list in insertion order, where
  storing under a key that is present replaces the value in place.
\<close>

type_synonym comparison_results = "(result_key \<times> dataframe) list"

datatype warning =
    SetupWarning
  | DataWarning string
  | MergeErrorWarning string string py_exn
  | MergeWarning string string
  | InternalLogicWarning string string string
  | ColumnMissingInOtherWarning string string string
  | DataTypeWarning string string string

type_synonym comparison_state = "comparison_results \<times> warning list"

text \<open>
  \<open>list(set([operation_column] + [col for col in numeric_cols
      if col in df.columns and col != operation_column]))\<close>.
  A Python set has no order; the model takes the order of first occurrence. Every later
  access to the merged frame is by label.
\<close>

definition cols_to_merge :: "string \<Rightarrow> vdf \<Rightarrow> string list" where
  "cols_to_merge key d =
     remdups (key # filter (\<lambda>c. c \<in> set (columns (dataframe d)) \<and> c \<noteq> key) (numeric_columns d))"

text \<open>The body of the \<open>try\<close>: both selections, then the merge.\<close>

definition merge_pair :: "string \<Rightarrow> vdf \<Rightarrow> vdf \<Rightarrow> py_exn + dataframe" where
  "merge_pair key ref other =
     (case select_columns (dataframe ref) (cols_to_merge key ref) of
        Inl e \<Rightarrow> Inl e
      | Inr l \<Rightarrow>
          (case select_columns (dataframe other) (cols_to_merge key other) of
             Inl e \<Rightarrow> Inl e
           | Inr r \<Rightarrow> merge_inner key l r))"

text \<open>
  \<open>(a - b).abs()\<close> on two numeric Series of one frame. Two int64 Series are subtracted in
  int64, with wrap-around, and the absolute value is that of int64. Otherwise both are
  taken as float64 and subtracted in float64.
\<close>

fun int64_abs_diff :: "cell \<Rightarrow> cell \<Rightarrow> cell" where
  "int64_abs_diff (Num x) (Num y) = Num (of_int (int64_abs (wrap64 (\<lfloor>x\<rfloor> - \<lfloor>y\<rfloor>))))"
| "int64_abs_diff x y = NaN"

definition float64_abs_diff :: "cell \<Rightarrow> cell \<Rightarrow> cell" where
  "float64_abs_diff x y = float_abs (float_sub x y)"

definition abs_diff_col :: "column \<Rightarrow> column \<Rightarrow> column" where
  "abs_diff_col a b =
     (if col_dtype a = Int64 \<and> col_dtype b = Int64
      then Col Int64 (map (\<lambda>xy. int64_abs_diff (fst xy) (snd xy)) (zip (col_cells a) (col_cells b)))
      else Col Float64 (map (\<lambda>xy. float64_abs_diff (fst xy) (snd xy)) (zip (as_float64 a) (as_float64 b))))"

text \<open>
  \<open>pd.DataFrame({operation_column: merged_df[operation_column], 'difference': diff_series})\<close>.
  The dict literal stores the key column first and the differences second, so a key column
  that is itself called \<open>difference\<close> is replaced by the differences.
\<close>

definition diff_frame :: "string \<Rightarrow> column \<Rightarrow> column \<Rightarrow> dataframe" where
  "diff_frame key kc d = AList.update ''difference'' d [(key, kc)]"

text \<open>
  One round of the loop over \<open>ref_numeric_cols\<close>. The three \<open>continue\<close> branches keep the
  results and append a warning. Building the result frame raises ValueError when the key
  label selects more than one column of the merged frame, and nothing catches it.
\<close>

definition compare_col ::
  "string \<Rightarrow> string \<Rightarrow> string \<Rightarrow> dataframe \<Rightarrow> comparison_state \<Rightarrow> string \<Rightarrow> py_exn + comparison_state"
where
  "compare_col key ref_filename other_filename merged st col_name =
     (let ref_col = col_name @ ''_REF'';
          other_col = col_name @ ''_OTH''
      in if ref_col \<notin> set (columns merged)
         then Inr (fst st, snd st @ [InternalLogicWarning col_name ref_filename other_filename])
         else if other_col \<notin> set (columns merged)
         then Inr (fst st, snd st @ [ColumnMissingInOtherWarning col_name ref_filename other_filename])
         else if \<not> is_numeric_dtype (getitem merged ref_col) \<or>
                 \<not> is_numeric_dtype (getitem merged other_col)
         then Inr (fst st, snd st @ [DataTypeWarning col_name ref_filename other_filename])
         else
           (case getitem merged key of
              [kc] \<Rightarrow>
                Inr (AList.update (col_name, ref_filename, other_filename)
                       (diff_frame key kc
                          (abs_diff_col (hd (getitem merged ref_col)) (hd (getitem merged other_col))))
                       (fst st),
                     snd st)
            | _ \<Rightarrow> Inl ValueError))"

text \<open>The loop over \<open>ref_numeric_cols\<close>; an exception leaves the loop.\<close>

fun compare_cols ::
  "string \<Rightarrow> string \<Rightarrow> string \<Rightarrow> dataframe \<Rightarrow> string list \<Rightarrow> comparison_state \<Rightarrow> py_exn + comparison_state"
where
  "compare_cols key rf ofn merged [] st = Inr st"
| "compare_cols key rf ofn merged (c # cs) st =
     (case compare_col key rf ofn merged st c of
        Inl e \<Rightarrow> Inl e
      | Inr st' \<Rightarrow> compare_cols key rf ofn merged cs st')"

text \<open>One round of the loop over the other tables.\<close>

definition compare_pair :: "string \<Rightarrow> vdf \<Rightarrow> vdf \<Rightarrow> comparison_state \<Rightarrow> py_exn + comparison_state" where
  "compare_pair key ref other st =
     (case merge_pair key ref other of
        Inl e \<Rightarrow> Inr (fst st, snd st @ [MergeErrorWarning (filename ref) (filename other) e])
      | Inr merged \<Rightarrow>
          if df_empty merged
          then Inr (fst st, snd st @ [MergeWarning (filename ref) (filename other)])
          else compare_cols key (filename ref) (filename other) merged (numeric_columns ref) st)"

text \<open>
  The loop over the other tables. An exception of a round leaves the function: the
  results and the warnings collected so far are not returned.
\<close>

fun compare_pairs :: "string \<Rightarrow> vdf \<Rightarrow> vdf list \<Rightarrow> comparison_state \<Rightarrow> py_exn + comparison_state" where
  "compare_pairs key ref [] st = Inr st"
| "compare_pairs key ref (other # others) st =
     (case compare_pair key ref other st of
        Inl e \<Rightarrow> Inl e
      | Inr st' \<Rightarrow> compare_pairs key ref others st')"

definition perform_column_comparison :: "vdf list \<Rightarrow> string \<Rightarrow> py_exn + comparison_state" where
  "perform_column_comparison validated_dataframes_data operation_column =
     (case validated_dataframes_data of
        ref # other # others \<Rightarrow>
          compare_pairs operation_column ref (other # others)
            ([], if numeric_columns ref = [] then [DataWarning (filename ref)] else [])
      | _ \<Rightarrow> Inr ([], [SetupWarning]))"

section \<open>validate\_dataframes\_for\_processing\<close>

text \<open>
  DataFrames are mutable objects, and the validator copies its input and assigns to a
  column of the copy. The model keeps the frames in a store: an address is an index into
  the list of all frames allocated so far.
\<close>

type_synonym addr = nat

type_synonym store = "dataframe list"

text \<open>\<open>df.copy()\<close>: a new frame with the same contents, at a fresh address.\<close>

definition df_copy :: "store \<Rightarrow> addr \<Rightarrow> store \<times> addr" where
  "df_copy h a = (h @ [h ! a], length h)"

text \<open>\<open>s.notna().sum()\<close>, \<open>s.isna().all()\<close>, \<open>s.isna().any()\<close>\<close>

definition notna_count :: "column \<Rightarrow> nat" where
  "notna_count c = length (filter (\<lambda>x. x \<noteq> NaN) (col_cells c))"

definition isna_all :: "column \<Rightarrow> bool" where
  "isna_all c \<longleftrightarrow> list_all (\<lambda>x. x = NaN) (col_cells c)"

definition isna_any :: "column \<Rightarrow> bool" where
  "isna_any c \<longleftrightarrow> list_ex (\<lambda>x. x = NaN) (col_cells c)"

text \<open>
  \<open>pd.to_numeric(s, errors='coerce')\<close>. How pandas reads a number from a string is a
  parameter: \<open>to_num\<close> gives an integer of 64 bits or a float64 value, or nothing when the
  string is not a number. A cell that cannot be read becomes NaN. The result is an int64
  column when every cell was read as an integer, and a float64 column otherwise, with the
  integers converted.
\<close>

datatype parsed = PInt int | PFloat cell

definition coerce_cell :: "(string \<Rightarrow> parsed option) \<Rightarrow> cell \<Rightarrow> parsed" where
  "coerce_cell to_num x =
     (case x of
        Str s \<Rightarrow> (case to_num s of Some v \<Rightarrow> v | None \<Rightarrow> PFloat NaN)
      | y \<Rightarrow> PFloat y)"

fun is_int :: "parsed \<Rightarrow> bool" where
  "is_int (PInt n) = True"
| "is_int (PFloat x) = False"

fun int64_cell :: "parsed \<Rightarrow> cell" where
  "int64_cell (PInt n) = Num (of_int n)"
| "int64_cell (PFloat x) = x"

fun float64_cell :: "parsed \<Rightarrow> cell" where
  "float64_cell (PInt n) = to_float64 (of_int n)"
| "float64_cell (PFloat x) = x"

definition to_numeric :: "(string \<Rightarrow> parsed option) \<Rightarrow> column \<Rightarrow> column" where
  "to_numeric to_num c =
     (let vs = map (coerce_cell to_num) (col_cells c)
      in if list_all is_int vs then Col Int64 (map int64_cell vs)
         else Col Float64 (map float64_cell vs))"

text \<open>\<open>df[label] = s\<close>: replaces the column in place, or adds it as the last one.\<close>

definition setitem :: "dataframe \<Rightarrow> string \<Rightarrow> column \<Rightarrow> dataframe" where
  "setitem df l c = AList.update l c df"

datatype validation_error =
    OperationColumnNotFound
  | DataLoss
  | ConvertedToNaN
  | ContainsNaN
  | NoNumericColumns

text \<open>An accepted table: the address of the validated copy and its numeric columns.\<close>

type_synonym accepted = "addr \<times> string list"

text \<open>
  The second half of the loop body, from the check \<open>df[operation_column].isna().any()\<close>
  on; \<open>a\<close> is the address of the copy.
\<close>

definition validate_rest :: "string \<Rightarrow> store \<Rightarrow> addr \<Rightarrow> store \<times> (validation_error + accepted)" where
  "validate_rest key h a =
     (let df = h ! a
      in if isna_any (series df key) then (h, Inl ContainsNaN)
         else
           (let numeric_cols =
                  filter (\<lambda>col. col \<noteq> key \<and> is_numeric_dtype (getitem df col)) (columns df)
            in if numeric_cols = [] then (h, Inl NoNumericColumns)
               else (h, Inr (a, numeric_cols))))"

text \<open>The loop body for one entry of \<open>dataframes_data\<close>: the address of its frame.\<close>

definition validate_item ::
  "(string \<Rightarrow> parsed option) \<Rightarrow> string \<Rightarrow> store \<Rightarrow> addr \<Rightarrow> store \<times> (validation_error + accepted)"
where
  "validate_item to_num key h src =
     (let (h1, a) = df_copy h src;
          df = h1 ! a
      in if key \<notin> set (columns df) then (h1, Inl OperationColumnNotFound)
         else if \<not> is_numeric_dtype (getitem df key)
         then
           (let original_non_na_count = notna_count (series df key);
                converted_op_col = to_numeric to_num (series df key)
            in if isna_all converted_op_col \<and> original_non_na_count > 0
               then (h1, Inl DataLoss)
               else
                 (let h2 = h1[a := setitem (h1 ! a) key converted_op_col]
                  in if isna_any (series (h2 ! a) key) then (h2, Inl ConvertedToNaN)
                     else validate_rest key h2 a))
         else validate_rest key h1 a)"

text \<open>
  The result lists \<open>validated_dfs\<close> and \<open>validation_errors\<close>, each entry with its file
  name.
\<close>

type_synonym validation_state = "(string \<times> accepted) list \<times> (string \<times> validation_error) list"

fun validate_items ::
  "(string \<Rightarrow> parsed option) \<Rightarrow> string \<Rightarrow> store \<Rightarrow> (string \<times> addr) list \<Rightarrow> validation_state
     \<Rightarrow> store \<times> validation_state"
where
  "validate_items to_num key h [] st = (h, st)"
| "validate_items to_num key h (item # items) st =
     (case validate_item to_num key h (snd item) of
        (h', Inl e) \<Rightarrow> validate_items to_num key h' items (fst st, snd st @ [(fst item, e)])
      | (h', Inr acc) \<Rightarrow> validate_items to_num key h' items (fst st @ [(fst item, acc)], snd st))"

definition validate_dataframes_for_processing ::
  "(string \<Rightarrow> parsed option) \<Rightarrow> store \<Rightarrow> (string \<times> addr) list \<Rightarrow> string \<Rightarrow> store \<times> validation_state"
where
  "validate_dataframes_for_processing to_num h dataframes_data operation_column =
     validate_items to_num operation_column h dataframes_data ([], [])"

section \<open>generate\_excel\_output: the rows to highlight\<close>

text \<open>
  \<open>diff_df['difference'].abs() > threshold_value\<close>, for one cell of a column of the given
  dtype. The threshold is a Python float: a binary64 number, an infinity or NaN. On an
  int64 column the absolute value is that of int64, which leaves \<open>-2^63\<close> as it is, and the
  comparison with the float converts the integer to float64. A missing difference
  compares False, and so does every difference with the threshold NaN.
\<close>

definition exceeds :: "cell \<Rightarrow> dtype \<Rightarrow> cell \<Rightarrow> bool" where
  "exceeds threshold_value dt x =
     (if dt = Int64
      then (case x of
              Num d \<Rightarrow> float_less threshold_value (to_float64 (of_int (int64_abs \<lfloor>d\<rfloor>)))
            | _ \<Rightarrow> False)
      else float_less threshold_value (float_abs x))"

text \<open>
  The key values that the inner loop visits for one result frame: the key column of
  \<open>diff_df[diff_df['difference'].abs() > threshold_value]\<close>, or nothing when one of the
  two guards fails. A result frame is built from a dict, so its labels are distinct and
  \<open>diff_df[label]\<close> is a Series. \<open>abs\<close> raises TypeError on text.
\<close>

definition exceeding_keys :: "cell \<Rightarrow> string \<Rightarrow> dataframe \<Rightarrow> py_exn + cell list" where
  "exceeding_keys threshold_value operation_column diff_df =
     (if ''difference'' \<in> set (columns diff_df)
      then
        (let d = series diff_df ''difference''
         in if has_text d then Inl TypeError
            else
              (let mask = map (exceeds threshold_value (col_dtype d)) (col_cells d)
               in if operation_column \<in> set (columns diff_df)
                  then Inr (map fst (filter snd (zip (col_cells (series diff_df operation_column)) mask)))
                  else Inr []))
      else Inr [])"

text \<open>The two \<open>add\<close> calls of the inner loop, for each visited key value.\<close>

fun add_rows :: "string \<Rightarrow> string \<Rightarrow> cell list \<Rightarrow> (string \<times> cell) set \<Rightarrow> (string \<times> cell) set" where
  "add_rows ref_filename other_filename [] rows = rows"
| "add_rows ref_filename other_filename (op_col_val # vals) rows =
     add_rows ref_filename other_filename vals
       (insert (other_filename, op_col_val) (insert (ref_filename, op_col_val) rows))"

text \<open>The loop over \<open>comparison_results.items()\<close>.\<close>

fun highlight_rows ::
  "cell \<Rightarrow> string \<Rightarrow> comparison_results \<Rightarrow> (string \<times> cell) set \<Rightarrow> py_exn + (string \<times> cell) set"
where
  "highlight_rows threshold_value operation_column [] rows = Inr rows"
| "highlight_rows threshold_value operation_column (item # items) rows =
     (case exceeding_keys threshold_value operation_column (snd item) of
        Inl e \<Rightarrow> Inl e
      | Inr vals \<Rightarrow>
          highlight_rows threshold_value operation_column items
            (add_rows (fst (snd (fst item))) (snd (snd (fst item))) vals rows))"

text \<open>\<open>rows_to_highlight_map\<close> as \<open>generate_excel_output\<close> has it before it writes.\<close>

definition rows_to_highlight_map ::
  "comparison_results \<Rightarrow> string \<Rightarrow> cell \<Rightarrow> py_exn + (string \<times> cell) set"
where
  "rows_to_highlight_map comparison_results operation_column threshold_value =
     highlight_rows threshold_value operation_column comparison_results {}"

section \<open>read\_csv\_files\<close>

text \<open>
  A byte is a character of eight bits; decoded text is kept in its UTF-8 form, so the
  four delimiter candidates and the null byte are single characters, and the byte-order
  mark is three.
\<close>

type_synonym bytes = "char list"

text \<open>What the file system holds under a name: nothing, something that cannot be read, or bytes.\<close>

datatype file_entry = Absent | Unreadable | File bytes

datatype encoding = Utf8Sig | Utf8 | Latin1

text \<open>The \<open>sep\<close> argument of \<open>pd.read_csv\<close>: \<open>None\<close> with the Python engine, or a character.\<close>

datatype sep_arg = Sniff | Sep char

text \<open>
  The exceptions the parser tells apart: \<open>pd.errors.ParserError\<close>,
  \<open>pd.errors.EmptyDataError\<close>, and every other exception, a decoding error among them.
\<close>

datatype parse_exn = ParserError | EmptyDataError | OtherError

text \<open>
  pandas and the text functions of Python are parameters of the model:
  \<^item> \<open>read_csv sep enc b\<close> is \<open>pd.read_csv(path, sep=sep, on_bad_lines='warn', encoding=enc)\<close>
    on a file with the bytes \<open>b\<close>;
  \<^item> \<open>read_csv_headerless enc b\<close> is the column of
    \<open>pd.read_csv(path, header=None, names=['data'], sep="\a", engine='python', encoding=enc)\<close>,
    a frame whose only label is the name it was given;
  \<^item> \<open>file_lines enc b n\<close> are the first \<open>n\<close> lines that iterating over
    \<open>open(path, 'r', encoding=enc)\<close> yields, or nothing when that raises;
  \<^item> \<open>str_strip\<close> is \<open>str.strip\<close>.
\<close>

record pylib =
  read_csv :: "sep_arg \<Rightarrow> encoding \<Rightarrow> bytes \<Rightarrow> parse_exn + dataframe"
  read_csv_headerless :: "encoding \<Rightarrow> bytes \<Rightarrow> parse_exn + column"
  file_lines :: "encoding \<Rightarrow> bytes \<Rightarrow> nat \<Rightarrow> string list option"
  str_strip :: "string \<Rightarrow> string"

definition common_delimiters :: "char list" where
  "common_delimiters = [CHR '','', CHR '';'', CHR 0x09, CHR ''|'']"

definition encodings_to_try :: "encoding list" where
  "encodings_to_try = [Utf8Sig, Utf8, Latin1]"

definition get_file_lines :: "pylib \<Rightarrow> bytes \<Rightarrow> encoding \<Rightarrow> nat \<Rightarrow> string list option" where
  "get_file_lines lib b enc max_lines = map_option (map (str_strip lib)) (file_lines lib enc b max_lines)"

text \<open>
  \<open>_is_likely_binary_from_chunk\<close>: a null byte among the first \<open>chunk_size\<close> bytes; a file
  that cannot be opened or read counts as binary.
\<close>

definition is_likely_binary_from_chunk :: "file_entry \<Rightarrow> nat \<Rightarrow> bool" where
  "is_likely_binary_from_chunk f chunk_size =
     (case f of File b \<Rightarrow> CHR 0x00 \<in> set (take chunk_size b) | _ \<Rightarrow> True)"

text \<open>
  The loop over the delimiters for a header-only frame with one column: the first
  delimiter that occurs in the header and gives more than one column wins; an exception of
  the re-parse is passed over.
\<close>

fun header_resplit :: "pylib \<Rightarrow> bytes \<Rightarrow> encoding \<Rightarrow> string \<Rightarrow> char list \<Rightarrow> dataframe option" where
  "header_resplit lib b enc header_str [] = None"
| "header_resplit lib b enc header_str (delim_char # delims) =
     (if delim_char \<in> set header_str
      then (case read_csv lib (Sep delim_char) enc b of
              Inr df_reparsed_header \<Rightarrow>
                if length (columns df_reparsed_header) > 1 then Some df_reparsed_header
                else header_resplit lib b enc header_str delims
            | Inl e \<Rightarrow> header_resplit lib b enc header_str delims)
      else header_resplit lib b enc header_str delims)"

text \<open>
  Strategy 2: each delimiter in turn. A frame with more than one column is returned at
  once; otherwise the first frame is kept, and replaced only when it has one column and no
  rows and the new one is not empty.
\<close>

fun try_delimiters :: "pylib \<Rightarrow> bytes \<Rightarrow> encoding \<Rightarrow> char list \<Rightarrow> dataframe option \<Rightarrow> dataframe option" where
  "try_delimiters lib b enc [] current_best_df = current_best_df"
| "try_delimiters lib b enc (delim # delims) current_best_df =
     (case read_csv lib (Sep delim) enc b of
        Inl e \<Rightarrow> try_delimiters lib b enc delims current_best_df
      | Inr df_try \<Rightarrow>
          if length (columns df_try) > 1 then Some df_try
          else
            (case current_best_df of
               None \<Rightarrow> try_delimiters lib b enc delims (Some df_try)
             | Some best \<Rightarrow>
                 if length (columns best) = 1 \<and> df_empty best \<and> \<not> df_empty df_try
                 then try_delimiters lib b enc delims (Some df_try)
                 else try_delimiters lib b enc delims current_best_df))"

text \<open>
  \<open>_try_parse_csv_with_encoding\<close>. Strategy 1 re-raises a ParserError and passes over
  every other exception.
\<close>

definition try_parse_csv_with_encoding ::
  "pylib \<Rightarrow> bytes \<Rightarrow> encoding \<Rightarrow> char list \<Rightarrow> parse_exn + dataframe option"
where
  "try_parse_csv_with_encoding lib b enc delims =
     (case read_csv lib Sniff enc b of
        Inl ParserError \<Rightarrow> Inl ParserError
      | Inl e \<Rightarrow> Inr (try_delimiters lib b enc delims None)
      | Inr df_attempt \<Rightarrow>
          if length (columns df_attempt) > 1 then Inr (Some df_attempt)
          else
            (case (if nrows df_attempt = 0 \<and> length (columns df_attempt) = 1
                   then header_resplit lib b enc (hd (columns df_attempt)) delims
                   else None) of
               Some df_reparsed_header \<Rightarrow> Inr (Some df_reparsed_header)
             | None \<Rightarrow> Inr (try_delimiters lib b enc delims (Some df_attempt))))"

text \<open>The byte-order mark U+FEFF, and \<open>col.replace(bom, '', 1)\<close>.\<close>

definition bom :: string where
  "bom = [CHR 0xEF, CHR 0xBB, CHR 0xBF]"

fun remove_first :: "string \<Rightarrow> string \<Rightarrow> string" where
  "remove_first sub [] = []"
| "remove_first sub (ch # s) =
     (if prefix sub (ch # s) then drop (length sub) (ch # s) else ch # remove_first sub s)"

definition strip_bom_labels :: "encoding \<Rightarrow> dataframe \<Rightarrow> dataframe" where
  "strip_bom_labels enc df =
     (if enc = Utf8Sig \<and> columns df \<noteq> [] \<and> prefix bom (hd (columns df))
      then map (\<lambda>lc. (remove_first bom (fst lc), snd lc)) df
      else df)"

text \<open>
  The loop over the encodings for one file, with the two local variables it reads and
  writes: \<open>best_df_for_file\<close>, the best frame so far, and \<open>parse_error_messages\<close>, one
  message per failed encoding. It stops at the first encoding after which the best frame
  has more than one column. The third local variable, \<open>successfully_parsed_this_file\<close>, is
  assigned and never read, and is left out.
\<close>

type_synonym parse_state = "dataframe option \<times> (encoding \<times> parse_exn) list"

fun try_encodings :: "pylib \<Rightarrow> bytes \<Rightarrow> encoding list \<Rightarrow> parse_state \<Rightarrow> parse_state" where
  "try_encodings lib b [] st = st"
| "try_encodings lib b (enc # encs) st =
     (case try_parse_csv_with_encoding lib b enc common_delimiters of
        Inl EmptyDataError \<Rightarrow>
          (case fst st of None \<Rightarrow> (Some [], snd st @ [(enc, EmptyDataError)])
                        | Some best \<Rightarrow> (Some best, snd st @ [(enc, EmptyDataError)]))
      | Inl e \<Rightarrow> try_encodings lib b encs (fst st, snd st @ [(enc, e)])
      | Inr None \<Rightarrow> try_encodings lib b encs st
      | Inr (Some attempt) \<Rightarrow>
          (let current_attempt_df = strip_bom_labels enc attempt;
               best =
                 (case fst st of
                    None \<Rightarrow> current_attempt_df
                  | Some old \<Rightarrow>
                      if length (columns current_attempt_df) > length (columns old) \<or>
                         (enc = Utf8Sig \<and> length (columns current_attempt_df) \<ge> length (columns old))
                      then current_attempt_df else old)
           in if length (columns best) > 1 then (Some best, snd st)
              else try_encodings lib b encs (Some best, snd st)))"

text \<open>\<open>" ".join(...)\<close>\<close>

fun join_space :: "string list \<Rightarrow> string" where
  "join_space [] = []"
| "join_space [l] = l"
| "join_space (l # ls) = l @ '' '' @ join_space ls"

text \<open>
  \<open>has_no_common_delimiters_in_content\<close>: no delimiter candidate occurs in the first five
  lines, stripped and joined; lines that cannot be read count as no lines.
\<close>

definition has_no_common_delimiters_in_content :: "pylib \<Rightarrow> bytes \<Rightarrow> bool" where
  "has_no_common_delimiters_in_content lib b =
     (let first_few_lines_content =
            join_space (case get_file_lines lib b (hd encodings_to_try) 5 of None \<Rightarrow> [] | Some ls \<Rightarrow> ls)
      in \<not> list_ex (\<lambda>delim. delim \<in> set first_few_lines_content) common_delimiters)"

text \<open>
  The check for a text file that was split by mistake: only for a frame with more than
  one column and at least one row. The re-parse, under the first encoding, replaces the
  frame when it succeeds with one column, and an exception keeps the frame.
\<close>

definition fix_oversplit :: "pylib \<Rightarrow> bytes \<Rightarrow> dataframe \<Rightarrow> dataframe" where
  "fix_oversplit lib b best_df_for_file =
     (if length (columns best_df_for_file) > 1 \<and> nrows best_df_for_file > 0
      then
        (if has_no_common_delimiters_in_content lib b
         then (case read_csv_headerless lib (hd encodings_to_try) b of
                 Inr c \<Rightarrow>
                   (let single_col_df = [(''data'', c)]
                    in if length (columns single_col_df) = 1 then single_col_df
                       else best_df_for_file)
               | Inl e \<Rightarrow> best_df_for_file)
         else best_df_for_file)
      else best_df_for_file)"

datatype read_error =
    FileNotFound
  | BinaryFile
  | EmptyTable
  | CouldNotParse "(encoding \<times> parse_exn) list"

text \<open>
  The body of the loop over the files, for one file. \<open>best_df_for_file\<close> and
  \<open>parse_error_messages\<close> are variables of the function, not of the round: a round finds
  in them what the round before left there. The two \<open>continue\<close> branches leave them as
  they are; otherwise the round assigns \<open>None\<close> and \<open>[]\<close> to them before it reads them.
  The round returns the variables as it leaves them, and what it appends to one of the two
  result lists.
\<close>

definition read_file_round ::
  "pylib \<Rightarrow> file_entry \<Rightarrow> parse_state \<Rightarrow> parse_state \<times> (read_error + dataframe)"
where
  "read_file_round lib f locals =
     (case f of
        Absent \<Rightarrow> (locals, Inl FileNotFound)
      | _ \<Rightarrow>
          if is_likely_binary_from_chunk f 1024 then (locals, Inl BinaryFile)
          else
            (case f of
               File b \<Rightarrow>
                 (let locals = (None, snd locals);
                      locals = (fst locals, []);
                      locals = try_encodings lib b encodings_to_try locals
                  in case locals of
                       (None, parse_error_messages) \<Rightarrow> (locals, Inl (CouldNotParse parse_error_messages))
                     | (Some best, parse_error_messages) \<Rightarrow>
                         (let best_df_for_file = fix_oversplit lib b best
                          in ((Some best_df_for_file, parse_error_messages),
                              if df_empty best_df_for_file \<and> length (columns best_df_for_file) = 0
                              then Inl EmptyTable
                              else Inr best_df_for_file)))
             | _ \<Rightarrow> (locals, Inl BinaryFile)))"

text \<open>What one file gives when its round starts with fresh variables.\<close>

definition read_file :: "pylib \<Rightarrow> file_entry \<Rightarrow> read_error + dataframe" where
  "read_file lib f = snd (read_file_round lib f (None, []))"

text \<open>
  \<open>read_csv_files\<close>: the loop over the file names, with the two result lists
  \<open>dataframes_data\<close> and \<open>errors_data\<close> and the variables that pass from round to round.
  The file system maps a name to what it holds. Before the first round the variables are
  unbound; the model starts them at \<open>None\<close> and \<open>[]\<close>.
\<close>

type_synonym read_state = "(string \<times> dataframe) list \<times> (string \<times> read_error) list"

fun read_files ::
  "pylib \<Rightarrow> (string \<Rightarrow> file_entry) \<Rightarrow> string list \<Rightarrow> parse_state \<times> read_state
     \<Rightarrow> parse_state \<times> read_state"
where
  "read_files lib fs [] st = st"
| "read_files lib fs (name # rest) st =
     (case read_file_round lib (fs name) (fst st) of
        (locals, Inl e) \<Rightarrow> read_files lib fs rest (locals, (fst (snd st), snd (snd st) @ [(name, e)]))
      | (locals, Inr df) \<Rightarrow> read_files lib fs rest (locals, (fst (snd st) @ [(name, df)], snd (snd st))))"

definition read_csv_files :: "pylib \<Rightarrow> (string \<Rightarrow> file_entry) \<Rightarrow> string list \<Rightarrow> read_state" where
  "read_csv_files lib fs relative_file_paths =
     snd (read_files lib fs relative_file_paths ((None, []), ([], [])))"

section \<open>Notions used to state the properties\<close>


text \<open>
  None of the five handled problems occurs for the pair and the column: the merge
  succeeds and has rows, both suffixed columns are in the merged frame, and both are
  numeric.
\<close>

definition series_due :: "string \<Rightarrow> vdf \<Rightarrow> vdf \<Rightarrow> string \<Rightarrow> bool" where
  "series_due key ref other c =
     (case merge_pair key ref other of
        Inl e \<Rightarrow> False
      | Inr merged \<Rightarrow>
          \<not> df_empty merged \<and>
          c @ ''_REF'' \<in> set (columns merged) \<and> c @ ''_OTH'' \<in> set (columns merged) \<and>
          is_numeric_dtype (getitem merged (c @ ''_REF'')) \<and>
          is_numeric_dtype (getitem merged (c @ ''_OTH'')))"

text \<open>
  The key column after numeric coercion: the column itself when it is numeric, the result
  of \<open>pd.to_numeric\<close> otherwise.
\<close>

definition coerced_key :: "(string \<Rightarrow> parsed option) \<Rightarrow> string \<Rightarrow> dataframe \<Rightarrow> column" where
  "coerced_key to_num key df =
     (if is_numeric_dtype (getitem df key) then series df key
      else to_numeric to_num (series df key))"

text \<open>The two diagnostics that report missing values in the key column.\<close>

definition missing_values_diagnostic :: "validation_error \<Rightarrow> bool" where
  "missing_values_diagnostic e \<longleftrightarrow> e = ConvertedToNaN \<or> e = ContainsNaN"

text \<open>The frame with its key column coerced: what an accepted copy holds.\<close>

definition with_coerced_key :: "(string \<Rightarrow> parsed option) \<Rightarrow> string \<Rightarrow> dataframe \<Rightarrow> dataframe" where
  "with_coerced_key to_num key df =
     (if is_numeric_dtype (getitem df key) then df
      else setitem df key (to_numeric to_num (series df key)))"

text \<open>
  An accepted entry is the validated copy of one of the input tables: its frame is fresh,
  it holds the input frame with the key column coerced, and no cell of the coerced key
  column is missing.
\<close>

definition accepted_ok ::
  "(string \<Rightarrow> parsed option) \<Rightarrow> string \<Rightarrow> store \<Rightarrow> store \<Rightarrow> (string \<times> addr) list \<Rightarrow> string \<times> accepted \<Rightarrow> bool"
where
  "accepted_ok to_num key h h' items v \<longleftrightarrow>
     (\<exists>src. (fst v, src) \<in> set items \<and>
        length h \<le> fst (snd v) \<and> fst (snd v) < length h' \<and>
        key \<in> set (columns (h ! src)) \<and>
        h' ! fst (snd v) = with_coerced_key to_num key (h ! src) \<and>
        \<not> isna_any (coerced_key to_num key (h ! src)))"

text \<open>
  An input table whose coerced key column has a missing cell has an entry in the error
  list, with the data-loss diagnostic or a missing-values diagnostic.
\<close>

definition rejected_ok ::
  "(string \<Rightarrow> parsed option) \<Rightarrow> string \<Rightarrow> store \<Rightarrow> (string \<times> validation_error) list \<Rightarrow> string \<times> addr \<Rightarrow> bool"
where
  "rejected_ok to_num key h errs item \<longleftrightarrow>
     (key \<in> set (columns (h ! snd item)) \<and> isna_any (coerced_key to_num key (h ! snd item)) \<longrightarrow>
        (\<exists>e. (fst item, e) \<in> set errs \<and> (e = DataLoss \<or> missing_values_diagnostic e)))"

text \<open>
  The entries of a difference series: its (key value, difference) pairs, in row order.
\<close>

definition series_entries :: "string \<Rightarrow> dataframe \<Rightarrow> (cell \<times> cell) list" where
  "series_entries key df = zip (col_cells (series df key)) (col_cells (series df ''difference''))"

text \<open>
  A result frame as the comparison builds it: it has the key column and the difference
  column, and no difference is text.
\<close>

definition wf_series :: "string \<Rightarrow> dataframe \<Rightarrow> bool" where
  "wf_series key df \<longleftrightarrow>
     key \<in> set (columns df) \<and> ''difference'' \<in> set (columns df) \<and>
     \<not> has_text (series df ''difference'')"

text \<open>The entry that one file name contributes to each of the two result lists.\<close>

definition parsed_entry :: "pylib \<Rightarrow> (string \<Rightarrow> file_entry) \<Rightarrow> string \<Rightarrow> (string \<times> dataframe) list" where
  "parsed_entry lib fs n = (case read_file lib (fs n) of Inr df \<Rightarrow> [(n, df)] | Inl e \<Rightarrow> [])"

definition failed_entry :: "pylib \<Rightarrow> (string \<Rightarrow> file_entry) \<Rightarrow> string \<Rightarrow> (string \<times> read_error) list" where
  "failed_entry lib fs n = (case read_file lib (fs n) of Inl e \<Rightarrow> [(n, e)] | Inr df \<Rightarrow> [])"

text \<open>A null byte among the first 1024 bytes.\<close>

definition null_in_prefix :: "bytes \<Rightarrow> bool" where
  "null_in_prefix b \<longleftrightarrow> CHR 0x00 \<in> set (take 1024 b)"

section \<open>Concrete tables\<close>

text \<open>
  A reference table with the columns \<open>id\<close>, \<open>c\<close> and \<open>c_REF\<close>, and another table with the
  columns \<open>id\<close> and \<open>c_OTH\<close>, as validation returns them for the files
  \<open>id,c,c_REF / 1,10,100\<close> and \<open>id,c_OTH / 1,7\<close>.
\<close>

definition suffix_ref :: vdf where
  "suffix_ref = \<lparr>filename = ''ref.csv'',
     dataframe = [(''id'', Col Int64 [Num 1]), (''c'', Col Int64 [Num 10]),
                  (''c_REF'', Col Int64 [Num 100])],
     numeric_columns = [''c'', ''c_REF'']\<rparr>"

definition suffix_oth :: vdf where
  "suffix_oth = \<lparr>filename = ''oth.csv'',
     dataframe = [(''id'', Col Int64 [Num 1]), (''c_OTH'', Col Int64 [Num 7])],
     numeric_columns = [''c_OTH'']\<rparr>"





text \<open>
  A reference table and four other tables: one without a common key value, one whose key
  column is text, one without the column \<open>w\<close>, and one with both columns.
\<close>

definition w_ref :: vdf where
  "w_ref = \<lparr>filename = ''ref.csv'',
     dataframe = [(''id'', Col Int64 [Num 1, Num 2, Num 3]),
                  (''v'', Col Int64 [Num 10, Num 20, Num 30]),
                  (''w'', Col Int64 [Num 5, Num 6, Num 7])],
     numeric_columns = [''v'', ''w'']\<rparr>"

definition w_far :: vdf where
  "w_far = \<lparr>filename = ''far.csv'',
     dataframe = [(''id'', Col Int64 [Num 8, Num 9]), (''v'', Col Int64 [Num 1, Num 2])],
     numeric_columns = [''v'']\<rparr>"

definition w_text :: vdf where
  "w_text = \<lparr>filename = ''text.csv'',
     dataframe = [(''id'', Col Object [Str ''a'', Str ''b'']), (''v'', Col Int64 [Num 1, Num 2])],
     numeric_columns = [''v'']\<rparr>"

definition w_part :: vdf where
  "w_part = \<lparr>filename = ''part.csv'',
     dataframe = [(''id'', Col Int64 [Num 1, Num 3]), (''v'', Col Int64 [Num 11, Num 33])],
     numeric_columns = [''v'']\<rparr>"

definition w_full :: vdf where
  "w_full = \<lparr>filename = ''full.csv'',
     dataframe = [(''id'', Col Int64 [Num 2, Num 3]),
                  (''v'', Col Int64 [Num 25, Num 30]),
                  (''w'', Col Int64 [Num 6, Num 9])],
     numeric_columns = [''v'', ''w'']\<rparr>"

definition w_results :: comparison_results where
  "w_results =
     [((''v'', ''ref.csv'', ''part.csv''),
       [(''id'', Col Int64 [Num 1, Num 3]), (''difference'', Col Int64 [Num 1, Num 3])]),
      ((''v'', ''ref.csv'', ''full.csv''),
       [(''id'', Col Int64 [Num 2, Num 3]), (''difference'', Col Int64 [Num 5, Num 0])]),
      ((''w'', ''ref.csv'', ''full.csv''),
       [(''id'', Col Int64 [Num 2, Num 3]), (''difference'', Col Int64 [Num 0, Num 2])])]"

definition w_warnings :: "warning list" where
  "w_warnings =
     [MergeWarning ''ref.csv'' ''far.csv'',
      MergeErrorWarning ''ref.csv'' ''text.csv'' ValueError,
      InternalLogicWarning ''w'' ''ref.csv'' ''part.csv'']"

text \<open>Merged frames: without rows; without the other side of \<open>w\<close>; with a text side.\<close>

definition far_merged :: dataframe where
  "far_merged = [(''id'', Col Int64 []), (''v_REF'', Col Int64 []), (''w'', Col Int64 []),
                 (''v_OTH'', Col Int64 [])]"

definition lone_merged :: dataframe where
  "lone_merged = [(''id'', Col Int64 [Num 1]), (''w_REF'', Col Int64 [Num 5])]"

definition text_merged :: dataframe where
  "text_merged = [(''id'', Col Int64 [Num 1]), (''w_REF'', Col Int64 [Num 5]),
                  (''w_OTH'', Col Object [Str ''x''])]"

text \<open>
  A reader of unsigned decimal numerals, which it reads as integers, to run the validator
  on concrete tables. The theorems about the validator hold for every reader.
\<close>

definition digit_value :: "char \<Rightarrow> nat option" where
  "digit_value ch =
     (let n = of_char ch :: nat in if 48 \<le> n \<and> n \<le> 57 then Some (n - 48) else None)"

fun digits_value :: "nat \<Rightarrow> string \<Rightarrow> nat option" where
  "digits_value acc [] = Some acc"
| "digits_value acc (ch # s) =
     (case digit_value ch of None \<Rightarrow> None | Some d \<Rightarrow> digits_value (10 * acc + d) s)"

definition decimal_to_num :: "string \<Rightarrow> parsed option" where
  "decimal_to_num s = (if s = [] then None else map_option (\<lambda>n. PInt (int n)) (digits_value 0 s))"

text \<open>Tables whose key column \<open>op_col\<close> is text, partly numeric, numeric, and with a gap.\<close>

definition letters_frame :: dataframe where
  "letters_frame = [(''op_col'', Col Object [Str ''x'', Str ''y'', Str ''z'']),
                    (''data_col1'', Col Int64 [Num 10, Num 20, Num 30])]"

definition mixed_frame :: dataframe where
  "mixed_frame = [(''op_col'', Col Object [Str ''1'', Str ''fail'', Str ''3'']),
                  (''data_col1'', Col Int64 [Num 10, Num 20, Num 30])]"

definition numerals_frame :: dataframe where
  "numerals_frame = [(''op_col'', Col Object [Str ''1'', Str ''2'', Str ''3'']),
                     (''data_col1'', Col Int64 [Num 10, Num 20, Num 30])]"

definition gap_frame :: dataframe where
  "gap_frame = [(''op_col'', Col Float64 [Num 1, NaN, Num 3]),
                (''data_col1'', Col Int64 [Num 10, Num 20, Num 30])]"

text \<open>A store with the four tables, and the four entries of \<open>dataframes_data\<close>.\<close>

definition val_store :: store where
  "val_store = [letters_frame, mixed_frame, numerals_frame, gap_frame]"

definition val_items :: "(string \<times> addr) list" where
  "val_items = [(''a.csv'', 0), (''b.csv'', 1), (''c.csv'', 2), (''d.csv'', 3)]"

definition mixed_coerced :: dataframe where
  "mixed_coerced = [(''op_col'', Col Float64 [Num 1, NaN, Num 3]),
                    (''data_col1'', Col Int64 [Num 10, Num 20, Num 30])]"

definition numerals_coerced :: dataframe where
  "numerals_coerced = [(''op_col'', Col Int64 [Num 1, Num 2, Num 3]),
                       (''data_col1'', Col Int64 [Num 10, Num 20, Num 30])]"

text \<open>The store after validation: the four tables, then the four copies.\<close>

definition val_store_after :: store where
  "val_store_after = val_store @ [letters_frame, mixed_coerced, numerals_coerced, gap_frame]"

text \<open>
  The result of one comparison, as the repository's tests pass it to the report: the
  differences 1, 0.5 and 2.5 for the keys 1, 2 and 3.
\<close>

definition sample_results :: comparison_results where
  "sample_results =
     [((''val1'', ''file1.csv'', ''file2.csv''),
       [(''op_col'', Col Int64 [Num 1, Num 2, Num 3]),
        (''difference'', Col Float64 [Num 1, Num (1/2), Num (5/2)])])]"

text \<open>
  A small stand-in for pandas and the text functions, to run the parser on concrete
  files. Under the two UTF-8 encodings it decodes files of ASCII bytes only and raises on
  any other byte; under Latin-1 it decodes every file. Lines end with a line feed. A parse
  skips the empty lines and splits every other line at the separator; without a separator
  given, the separator is the first of comma, tab, semicolon, space and colon that occurs
  in the first line, and a file without any line to parse raises EmptyDataError. A column
  whose cells are all decimal numerals is an int64 column, and every other column holds
  text. The theorems about the parser hold for every library.
\<close>

definition latin1_char :: "char \<Rightarrow> string" where
  "latin1_char ch =
     (let n = of_char ch :: nat
      in if n < 128 then [ch] else [char_of (192 + n div 64), char_of (128 + n mod 64)])"

definition toy_decode :: "encoding \<Rightarrow> bytes \<Rightarrow> string option" where
  "toy_decode enc b =
     (if enc = Latin1 then Some (concat (map latin1_char b))
      else if list_all (\<lambda>ch. (of_char ch :: nat) < 128) b then Some b
      else None)"

fun split_on :: "char \<Rightarrow> string \<Rightarrow> string list" where
  "split_on sep [] = [[]]"
| "split_on sep (ch # s) =
     (if ch = sep then [] # split_on sep s
      else (case split_on sep s of [] \<Rightarrow> [[ch]] | w # ws \<Rightarrow> (ch # w) # ws))"

definition text_lines :: "string \<Rightarrow> string list" where
  "text_lines s =
     (let ls = split_on (CHR 0x0A) s in if ls \<noteq> [] \<and> last ls = [] then butlast ls else ls)"

definition parsed_lines :: "string \<Rightarrow> string list" where
  "parsed_lines s = filter (\<lambda>l. l \<noteq> []) (text_lines s)"

definition infer_column :: "string list \<Rightarrow> column" where
  "infer_column cs =
     (if cs \<noteq> [] \<and> list_all (\<lambda>s. decimal_to_num s \<noteq> None) cs
      then Col Int64 (map (\<lambda>s. case decimal_to_num s of Some v \<Rightarrow> int64_cell v | None \<Rightarrow> NaN) cs)
      else Col Object (map (\<lambda>s. if s = [] then NaN else Str s) cs))"

definition field_at :: "string list \<Rightarrow> nat \<Rightarrow> string" where
  "field_at ws i = (if i < length ws then ws ! i else [])"

definition toy_frame :: "string list \<Rightarrow> string list list \<Rightarrow> dataframe" where
  "toy_frame header rows =
     map (\<lambda>i. (header ! i, infer_column (map (\<lambda>r. field_at r i) rows))) [0..<length header]"

definition toy_read_csv :: "sep_arg \<Rightarrow> encoding \<Rightarrow> bytes \<Rightarrow> parse_exn + dataframe" where
  "toy_read_csv sep enc b =
     (case toy_decode enc b of
        None \<Rightarrow> Inl OtherError
      | Some s \<Rightarrow>
          (case parsed_lines s of
             [] \<Rightarrow> Inl EmptyDataError
           | first # rest \<Rightarrow>
               (let delim =
                      (case sep of
                         Sep c \<Rightarrow> Some c
                       | Sniff \<Rightarrow> find (\<lambda>c. c \<in> set first) [CHR '','', CHR 0x09, CHR '';'', CHR '' '', CHR '':'']);
                    cut = (\<lambda>l. case delim of None \<Rightarrow> [l] | Some c \<Rightarrow> split_on c l)
                in Inr (toy_frame (cut first) (map cut rest)))))"

definition toy_read_csv_headerless :: "encoding \<Rightarrow> bytes \<Rightarrow> parse_exn + column" where
  "toy_read_csv_headerless enc b =
     (case toy_decode enc b of
        None \<Rightarrow> Inl OtherError
      | Some s \<Rightarrow> (case parsed_lines s of [] \<Rightarrow> Inl EmptyDataError | ls \<Rightarrow> Inr (infer_column ls)))"

definition ascii_space :: "char \<Rightarrow> bool" where
  "ascii_space ch \<longleftrightarrow> ch \<in> set [CHR '' '', CHR 0x09, CHR 0x0A, CHR 0x0B, CHR 0x0C, CHR 0x0D]"

definition ascii_strip :: "string \<Rightarrow> string" where
  "ascii_strip s = rev (dropWhile ascii_space (rev (dropWhile ascii_space s)))"

definition toy_lib :: pylib where
  "toy_lib = \<lparr>read_csv = toy_read_csv,
              read_csv_headerless = toy_read_csv_headerless,
              file_lines = (\<lambda>enc b n. map_option (\<lambda>s. take n (text_lines s)) (toy_decode enc b)),
              str_strip = ascii_strip\<rparr>"

text \<open>
  Files: a header only; a header only, separated by spaces; a table separated by spaces;
  the same table with an empty line after the header; a table separated by spaces with
  the byte \<open>0xE9\<close>, which is a letter in Latin-1 and not valid UTF-8; a small table; a file
  with a null byte.
\<close>

definition header_only_file :: bytes where
  "header_only_file = ''a,b,c''"

definition spaced_header_file :: bytes where
  "spaced_header_file = ''a b c''"

definition spaced_table_file :: bytes where
  "spaced_table_file = ''x y'' @ [CHR 0x0A] @ ''1 2'' @ [CHR 0x0A]"

definition gapped_table_file :: bytes where
  "gapped_table_file = ''x y'' @ [CHR 0x0A, CHR 0x0A] @ ''1 2'' @ [CHR 0x0A]"

definition latin1_table_file :: bytes where
  "latin1_table_file = ''x y'' @ [CHR 0x0A] @ ''1 '' @ [CHR 0xE9, CHR 0x0A]"

definition id_value_file :: bytes where
  "id_value_file = ''id,value'' @ [CHR 0x0A] @ ''1,10'' @ [CHR 0x0A] @ ''2,20''"

definition null_byte_file :: bytes where
  "null_byte_file = ''a,b'' @ [CHR 0x00] @ ''c''"

definition abc_frame :: dataframe where
  "abc_frame = [(''a'', Col Object []), (''b'', Col Object []), (''c'', Col Object [])]"

definition xy_frame :: dataframe where
  "xy_frame = [(''x'', Col Int64 [Num 1]), (''y'', Col Int64 [Num 2])]"

definition latin1_frame :: dataframe where
  "latin1_frame = [(''x'', Col Int64 [Num 1]), (''y'', Col Object [Str [CHR 0xC3, CHR 0xA9]])]"

definition id_value_frame :: dataframe where
  "id_value_frame = [(''id'', Col Int64 [Num 1, Num 2]), (''value'', Col Int64 [Num 10, Num 20])]"

text \<open>Two file systems that hold the same bytes under \<open>a.csv\<close> and differ elsewhere.\<close>

definition fs_one :: "string \<Rightarrow> file_entry" where
  "fs_one n = (if n = ''a.csv'' then File id_value_file
               else if n = ''bin.csv'' then File null_byte_file else Absent)"

definition fs_two :: "string \<Rightarrow> file_entry" where
  "fs_two n = (if n = ''a.csv'' then File id_value_file
               else if n = ''h.csv'' then File header_only_file
               else if n = ''s.txt'' then File spaced_table_file else Absent)"

text \<open>
  Two variants of the stand-in: one whose automatic detection never splits, and one whose
  every parse is a frame without columns.
\<close>

definition unsniffing_lib :: pylib where
  "unsniffing_lib =
     toy_lib\<lparr>read_csv := (\<lambda>sep. case sep of Sniff \<Rightarrow> toy_read_csv (Sep (CHR 0x07))
                                         | Sep c \<Rightarrow> toy_read_csv (Sep c))\<rparr>"

definition blank_lib :: pylib where
  "blank_lib = toy_lib\<lparr>read_csv := (\<lambda>sep enc b. Inr [])\<rparr>"

text \<open>Two tables whose key column is called \<open>difference\<close>.\<close>

definition named_ref :: vdf where
  "named_ref = \<lparr>filename = ''ref.csv'',
     dataframe = [(''difference'', Col Int64 [Num 1, Num 2]), (''v'', Col Int64 [Num 10, Num 20])],
     numeric_columns = [''v'']\<rparr>"

definition named_oth :: vdf where
  "named_oth = \<lparr>filename = ''oth.csv'',
     dataframe = [(''difference'', Col Int64 [Num 1, Num 2]), (''v'', Col Int64 [Num 13, Num 27])],
     numeric_columns = [''v'']\<rparr>"

text \<open>
  Tables as validation returns them for the files \<open>id,v / 1,-9223372036854775808\<close> and
  \<open>id,v / 1,0\<close>: the least int64 against zero. The third table has the next integer.
\<close>

definition least_ref :: vdf where
  "least_ref = \<lparr>filename = ''ref.csv'',
     dataframe = [(''id'', Col Int64 [Num 1]), (''v'', Col Int64 [Num (- 9223372036854775808)])],
     numeric_columns = [''v'']\<rparr>"

definition least_oth :: vdf where
  "least_oth = \<lparr>filename = ''oth.csv'',
     dataframe = [(''id'', Col Int64 [Num 1]), (''v'', Col Int64 [Num 0])],
     numeric_columns = [''v'']\<rparr>"

definition next_ref :: vdf where
  "next_ref = \<lparr>filename = ''ref.csv'',
     dataframe = [(''id'', Col Int64 [Num 1]), (''v'', Col Int64 [Num (- 9223372036854775807)])],
     numeric_columns = [''v'']\<rparr>"

text \<open>
  Three tables whose key column is called \<open>v_OTH\<close>, as validation returns them for the
  files \<open>v_OTH,v,w / 1,10,5 / 2,20,6\<close>, \<open>v_OTH,w / 1,7 / 2,9\<close> and
  \<open>v_OTH,v,w / 1,11,5 / 2,22,8\<close>.
\<close>

definition clash_ref :: vdf where
  "clash_ref = \<lparr>filename = ''ref.csv'',
     dataframe = [(''v_OTH'', Col Int64 [Num 1, Num 2]), (''v'', Col Int64 [Num 10, Num 20]),
                  (''w'', Col Int64 [Num 5, Num 6])],
     numeric_columns = [''v'', ''w'']\<rparr>"


definition clash_full :: vdf where
  "clash_full = \<lparr>filename = ''full.csv'',
     dataframe = [(''v_OTH'', Col Int64 [Num 1, Num 2]), (''v'', Col Int64 [Num 11, Num 22]),
                  (''w'', Col Int64 [Num 5, Num 8])],
     numeric_columns = [''v'', ''w'']\<rparr>"

definition clash_merged :: dataframe where
  "clash_merged =
     [(''v_OTH'', Col Int64 [Num 1, Num 2]), (''v_REF'', Col Int64 [Num 10, Num 20]),
      (''w_REF'', Col Int64 [Num 5, Num 6]), (''v_OTH'', Col Int64 [Num 11, Num 22]),
      (''w_OTH'', Col Int64 [Num 5, Num 8])]"




section \<open>Properties of the comparison\<close>


lemma filter_key_unique:
  "distinct (map fst xs) \<Longrightarrow> (k, v) \<in> set xs \<Longrightarrow> filter (\<lambda>p. fst p = k) xs = [(k, v)]"
proof (induction xs)
  case Nil then show ?case by simp
next
  case (Cons x xs)
  show ?case
  proof (cases "x = (k, v)")
    case True
    with Cons.prems have "k \<notin> fst ` set xs" by auto
    then have "filter (\<lambda>p. fst p = k) xs = []" by (auto simp: filter_empty_conv)
    with True show ?thesis by simp
  next
    case False
    with Cons.prems have in_xs: "(k, v) \<in> set xs" by auto
    with Cons.prems have "fst x \<noteq> k" by (auto simp: image_iff) 
    with Cons in_xs show ?thesis by simp
  qed
qed

lemma filter_index_length:
  "length (filter (\<lambda>j. P (ys ! j)) [0..<length ys]) = length (filter P ys)"
proof -
  have "filter P (map ((!) ys) [0..<length ys]) = map ((!) ys) (filter (P \<circ> (!) ys) [0..<length ys])"
    by (rule filter_map)
  then have "filter P ys = map ((!) ys) (filter (\<lambda>j. P (ys ! j)) [0..<length ys])"
    by (simp add: map_nth comp_def)
  then show ?thesis by (metis length_map)
qed

lemma join_pairs_left_cells:
  "map (nth_cell lk) (map fst (join_pairs (map f lk) rk)) =
     concat (map (\<lambda>x. replicate (length (filter (\<lambda>y. f x = y) rk)) x) lk)"
proof -
  have "map (nth_cell lk) (map fst (join_pairs (map f lk) rk)) =
     concat (map (\<lambda>i. replicate (length (filter (\<lambda>j. f (lk ! i) = rk ! j) [0..<length rk])) (lk ! i)) [0..<length lk])"
  proof -
    have "map (nth_cell lk) (map fst (join_pairs (map f lk) rk)) =
       concat (map (\<lambda>i. replicate (length (filter (\<lambda>j. map f lk ! i = rk ! j) [0..<length rk])) (nth_cell lk i)) [0..<length lk])"
      by (simp add: join_pairs_def map_concat comp_def map_replicate_const)
    moreover have "map (\<lambda>i. replicate (length (filter (\<lambda>j. map f lk ! i = rk ! j) [0..<length rk])) (nth_cell lk i)) [0..<length lk]
       = map (\<lambda>i. replicate (length (filter (\<lambda>j. f (lk ! i) = rk ! j) [0..<length rk])) (lk ! i)) [0..<length lk]"
      by (rule map_cong) (simp_all add: nth_cell_def)
    ultimately show ?thesis by simp
  qed
  also have "\<dots> = concat (map (\<lambda>i. (\<lambda>x. replicate (length (filter (\<lambda>y. f x = y) rk)) x) (lk ! i)) [0..<length lk])"
    by (simp add: filter_index_length)
  also have "\<dots> = concat (map (\<lambda>x. replicate (length (filter (\<lambda>y. f x = y) rk)) x) (map ((!) lk) [0..<length lk]))"
    by (simp add: comp_def)
  finally show ?thesis by (simp add: map_nth)
qed

lemma count_list_replicate_eq:
  "count_list (replicate n x) k = (if x = k then n else 0)"
  by (induction n) auto

lemma count_list_concat_replicate:
  "count_list (concat (map (\<lambda>x. replicate (f x) x) xs)) k = count_list xs k * f k"
  by (induction xs) (auto simp: count_list_replicate_eq)

lemma length_filter_eq_count: "length (filter (\<lambda>y. k = y) ys) = count_list ys k"
  by (induction ys) auto

lemma join_count:
  "count_list (map (nth_cell lk) (map fst (join_pairs (map f lk) rk))) k =
     count_list lk k * count_list rk (f k)"
  by (simp only: join_pairs_left_cells count_list_concat_replicate length_filter_eq_count)

lemma match_cell_same: "col_dtype a = col_dtype b \<Longrightarrow> match_cell a b x = x"
  by (cases "col_dtype b") (simp_all add: match_cell_def)

lemma match_cells_same: "col_dtype a = col_dtype b \<Longrightarrow> match_cells a b = col_cells a"
  by (simp add: match_cells_def match_cell_same map_idI)


lemma filter_concat_select:
  "distinct ls \<Longrightarrow> key \<in> set ls \<Longrightarrow>
   filter (\<lambda>lc. fst lc = key) (concat (map (\<lambda>l. filter (\<lambda>lc. fst lc = l) df) ls)) =
   filter (\<lambda>lc. fst lc = key) df"
proof (induction ls)
  case Nil then show ?case by simp
next
  case (Cons a ls)
  have none: "key \<notin> set ls \<Longrightarrow>
     filter (\<lambda>lc. fst lc = key) (concat (map (\<lambda>l. filter (\<lambda>lc. fst lc = l) df) ls)) = []"
    by (auto simp: filter_empty_conv)
  show ?case
  proof (cases "a = key")
    case True
    with Cons.prems have "key \<notin> set ls" by simp
    with True none show ?thesis by simp
  next
    case False
    with Cons.prems have "key \<in> set ls" "distinct ls" by auto
    with Cons.IH have IH: "filter (\<lambda>lc. fst lc = key) (concat (map (\<lambda>l. filter (\<lambda>lc. fst lc = l) df) ls)) =
       filter (\<lambda>lc. fst lc = key) df" by simp
    have "filter (\<lambda>lc. fst lc = key) (filter (\<lambda>lc. fst lc = a) df) = []"
      using False by (auto simp: filter_empty_conv)
    with IH show ?thesis by simp
  qed
qed

lemma select_getitem:
  "select_columns df ls = Inr l \<Longrightarrow> distinct ls \<Longrightarrow> key \<in> set ls \<Longrightarrow> getitem l key = getitem df key"
  by (auto simp: select_columns_def getitem_def filter_concat_select split: if_splits)

lemma cols_to_merge_key: "distinct (cols_to_merge key d)" "key \<in> set (cols_to_merge key d)"
  by (simp_all add: cols_to_merge_def)

lemma merge_inner_key:
  assumes "merge_inner key l r = Inr merged"
  shows "\<exists>lk rk rest. getitem l key = [lk] \<and> getitem r key = [rk] \<and>
           getitem merged key = take_rows (map fst (join_pairs (match_cells lk rk) (match_cells rk lk))) lk # rest \<and>
           (\<not> suffix ''_OTH'' key \<longrightarrow> rest = []) \<and>
           (\<forall>lc \<in> set merged. length (col_cells (snd lc)) = length (join_pairs (match_cells lk rk) (match_cells rk lk)))"
proof -
  from assms obtain lk rk where lk: "getitem l key = [lk]" and rk: "getitem r key = [rk]"
    by (auto simp: merge_inner_def split: list.splits if_splits prod.splits)
  define rrest where "rrest = filter (\<lambda>lc. fst lc \<noteq> key) r"
  define overlap where "overlap = (\<lambda>la. la \<in> set (columns l) \<and> la \<in> set (columns rrest))"
  define ps where "ps = join_pairs (match_cells lk rk) (match_cells rk lk)"
  define lpart where "lpart = map (\<lambda>lc. (if overlap (fst lc) then fst lc @ ''_REF'' else fst lc,
                                     take_rows (map fst ps) (snd lc))) l"
  define rpart where "rpart = map (\<lambda>lc. (if overlap (fst lc) then fst lc @ ''_OTH'' else fst lc,
                                     take_rows (map snd ps) (snd lc))) rrest"
  from assms lk rk have m: "merged = lpart @ rpart" and dl: "distinct (columns lpart)"
    by (auto simp: merge_inner_def Let_def rrest_def overlap_def ps_def lpart_def rpart_def
        split: if_splits)
  from lk obtain p where p: "filter (\<lambda>lc. fst lc = key) l = [p]" and "snd p = lk"
    by (auto simp: getitem_def)
  from p have "p \<in> set (filter (\<lambda>lc. fst lc = key) l)" by simp
  then have "p \<in> set l" "fst p = key" by simp_all
  with \<open>snd p = lk\<close> have cin: "(key, lk) \<in> set l" by (cases p) auto
  have "\<not> overlap key" by (auto simp: overlap_def rrest_def columns_def)
  with cin have "(key, take_rows (map fst ps) lk) \<in> set lpart"
    by (force simp: lpart_def image_iff)
  with dl have "filter (\<lambda>p. fst p = key) lpart = [(key, take_rows (map fst ps) lk)]"
    by (simp add: filter_key_unique columns_def)
  then have g: "getitem merged key = take_rows (map fst ps) lk # getitem rpart key"
    by (simp add: m getitem_def)
  have "\<forall>lc \<in> set merged. length (col_cells (snd lc)) = length ps"
    by (auto simp: m lpart_def rpart_def take_rows_def)
  moreover have "\<not> suffix ''_OTH'' key \<longrightarrow> getitem rpart key = []"
    by (auto simp: getitem_def rpart_def rrest_def filter_empty_conv suffix_def)
  ultimately show ?thesis using g lk rk by (auto simp: ps_def)
qed

lemma merge_pair_key:
  assumes "merge_pair key ref other = Inr merged"
  shows "\<exists>lk rk rest. getitem (dataframe ref) key = [lk] \<and> getitem (dataframe other) key = [rk] \<and>
           getitem merged key = take_rows (map fst (join_pairs (match_cells lk rk) (match_cells rk lk))) lk # rest \<and>
           (\<not> suffix ''_OTH'' key \<longrightarrow> rest = []) \<and>
           (\<forall>lc \<in> set merged. length (col_cells (snd lc)) = length (join_pairs (match_cells lk rk) (match_cells rk lk)))"
proof -
  from assms obtain l r where l: "select_columns (dataframe ref) (cols_to_merge key ref) = Inr l"
    and r: "select_columns (dataframe other) (cols_to_merge key other) = Inr r"
    and m: "merge_inner key l r = Inr merged"
    by (auto simp: merge_pair_def split: sum.splits)
  from l have "getitem l key = getitem (dataframe ref) key"
    by (rule select_getitem) (rule cols_to_merge_key)+
  moreover from r have "getitem r key = getitem (dataframe other) key"
    by (rule select_getitem) (rule cols_to_merge_key)+
  ultimately show ?thesis using merge_inner_key[OF m] by simp
qed





lemma getitem_diff_frame: "getitem (diff_frame key kc d) ''difference'' = [d]"
  by (simp add: diff_frame_def getitem_def)





text \<open>
  C1, at the tables \<open>suffix_ref\<close> and \<open>suffix_oth\<close>. The other table has no column
  \<open>c\<close>, and no label overlaps, so the merge adds no suffix. The labels \<open>c_REF\<close> and
  \<open>c_OTH\<close> of the merged frame are then the columns of that name of the two files, and the
  series stored for the column \<open>c\<close> holds |100 - 7| = 93, while the cell of \<open>c\<close> in the
  reference table is 10.
\<close>

theorem suffix_collision_series:
  "perform_column_comparison [suffix_ref, suffix_oth] ''id'' =
     Inr ([((''c'', ''ref.csv'', ''oth.csv''),
            [(''id'', Col Int64 [Num 1]), (''difference'', Col Int64 [Num 93])])],
          [InternalLogicWarning ''c_REF'' ''ref.csv'' ''oth.csv'']) \<and>
   getitem (dataframe suffix_oth) ''c'' = [] \<and>
   getitem (dataframe suffix_ref) ''c'' = [Col Int64 [Num 10]]"
  by code_simp


lemma compare_col_step:
  assumes "getitem merged key = [kc]"
  shows "\<exists>st'. compare_col key rf ofn merged st c = Inr st' \<and>
           prefix (snd st) (snd st') \<and>
           fst ` set (fst st) \<subseteq> fst ` set (fst st') \<and>
           (\<forall>k. snd (snd k) \<noteq> ofn \<longrightarrow> map_of (fst st') k = map_of (fst st) k) \<and>
           (c @ ''_REF'' \<in> set (columns merged) \<and> c @ ''_OTH'' \<in> set (columns merged) \<and>
            is_numeric_dtype (getitem merged (c @ ''_REF'')) \<and>
            is_numeric_dtype (getitem merged (c @ ''_OTH''))
            \<longrightarrow> (c, rf, ofn) \<in> fst ` set (fst st'))"
  using assms
  by (auto simp: compare_col_def Let_def dom_update update_conv')

lemma compare_cols_loop:
  assumes "getitem merged key = [kc]"
  shows "\<exists>st'. compare_cols key rf ofn merged cs st = Inr st' \<and>
           prefix (snd st) (snd st') \<and>
           fst ` set (fst st) \<subseteq> fst ` set (fst st') \<and>
           (\<forall>k. snd (snd k) \<noteq> ofn \<longrightarrow> map_of (fst st') k = map_of (fst st) k) \<and>
           (\<forall>c \<in> set cs.
              c @ ''_REF'' \<in> set (columns merged) \<and> c @ ''_OTH'' \<in> set (columns merged) \<and>
              is_numeric_dtype (getitem merged (c @ ''_REF'')) \<and>
              is_numeric_dtype (getitem merged (c @ ''_OTH''))
              \<longrightarrow> (c, rf, ofn) \<in> fst ` set (fst st'))"
proof (induction cs arbitrary: st)
  case Nil
  then show ?case by simp
next
  case (Cons c cs)
  from compare_col_step[OF assms, where rf=rf and ofn=ofn and st=st and c=c] obtain st1 where
    s1: "compare_col key rf ofn merged st c = Inr st1" and
    p1: "prefix (snd st) (snd st1)" and
    d1: "fst ` set (fst st) \<subseteq> fst ` set (fst st1)" and
    u1: "\<forall>k. snd (snd k) \<noteq> ofn \<longrightarrow> map_of (fst st1) k = map_of (fst st) k" and
    c1: "c @ ''_REF'' \<in> set (columns merged) \<and> c @ ''_OTH'' \<in> set (columns merged) \<and>
            is_numeric_dtype (getitem merged (c @ ''_REF'')) \<and>
            is_numeric_dtype (getitem merged (c @ ''_OTH''))
            \<longrightarrow> (c, rf, ofn) \<in> fst ` set (fst st1)"
    by blast
  from Cons.IH[of st1] obtain st2 where
    s2: "compare_cols key rf ofn merged cs st1 = Inr st2" and
    p2: "prefix (snd st1) (snd st2)" and
    d2: "fst ` set (fst st1) \<subseteq> fst ` set (fst st2)" and
    u2: "\<forall>k. snd (snd k) \<noteq> ofn \<longrightarrow> map_of (fst st2) k = map_of (fst st1) k" and
    c2: "\<forall>c \<in> set cs.
              c @ ''_REF'' \<in> set (columns merged) \<and> c @ ''_OTH'' \<in> set (columns merged) \<and>
              is_numeric_dtype (getitem merged (c @ ''_REF'')) \<and>
              is_numeric_dtype (getitem merged (c @ ''_OTH''))
              \<longrightarrow> (c, rf, ofn) \<in> fst ` set (fst st2)"
    by blast
  have "compare_cols key rf ofn merged (c # cs) st = Inr st2" using s1 s2 by simp
  moreover have "prefix (snd st) (snd st2)" using p1 p2 by (rule prefix_order.trans)
  moreover have "fst ` set (fst st) \<subseteq> fst ` set (fst st2)" using d1 d2 by blast
  moreover have "\<forall>k. snd (snd k) \<noteq> ofn \<longrightarrow> map_of (fst st2) k = map_of (fst st) k"
    using u1 u2 by simp
  moreover have "\<forall>c' \<in> set (c # cs).
              c' @ ''_REF'' \<in> set (columns merged) \<and> c' @ ''_OTH'' \<in> set (columns merged) \<and>
              is_numeric_dtype (getitem merged (c' @ ''_REF'')) \<and>
              is_numeric_dtype (getitem merged (c' @ ''_OTH''))
              \<longrightarrow> (c', rf, ofn) \<in> fst ` set (fst st2)"
    using c1 c2 d2 by auto
  ultimately show ?case by blast
qed

lemma compare_pair_step:
  assumes "\<not> suffix ''_OTH'' key"
  shows "\<exists>st'. compare_pair key ref other st = Inr st' \<and>
           prefix (snd st) (snd st') \<and>
           fst ` set (fst st) \<subseteq> fst ` set (fst st') \<and>
           (\<forall>k. snd (snd k) \<noteq> filename other \<longrightarrow> map_of (fst st') k = map_of (fst st) k) \<and>
           (\<forall>c \<in> set (numeric_columns ref). series_due key ref other c
              \<longrightarrow> (c, filename ref, filename other) \<in> fst ` set (fst st'))"
proof (cases "merge_pair key ref other")
  case (Inl e)
  then show ?thesis by (simp add: compare_pair_def series_due_def)
next
  case (Inr merged)
  show ?thesis
  proof (cases "df_empty merged")
    case True
    with Inr show ?thesis by (simp add: compare_pair_def series_due_def)
  next
    case False
    from merge_pair_key[OF Inr] assms obtain kc where "getitem merged key = [kc]" by auto
    from compare_cols_loop[OF this, where rf="filename ref" and ofn="filename other" and cs="numeric_columns ref" and st=st]
    show ?thesis using Inr False by (simp add: compare_pair_def series_due_def)
  qed
qed

lemma compare_pairs_loop:
  assumes "\<not> suffix ''_OTH'' key"
  shows "\<exists>st'. compare_pairs key ref others st = Inr st' \<and>
           prefix (snd st) (snd st') \<and>
           fst ` set (fst st) \<subseteq> fst ` set (fst st') \<and>
           (\<forall>k. snd (snd k) \<notin> filename ` set others \<longrightarrow> map_of (fst st') k = map_of (fst st) k) \<and>
           (\<forall>other \<in> set others. \<forall>c \<in> set (numeric_columns ref). series_due key ref other c
              \<longrightarrow> (c, filename ref, filename other) \<in> fst ` set (fst st'))"
proof (induction others arbitrary: st)
  case Nil
  then show ?case by simp
next
  case (Cons other others)
  from compare_pair_step[OF assms, where ref=ref and other=other and st=st] obtain st1 where
    s1: "compare_pair key ref other st = Inr st1" and
    p1: "prefix (snd st) (snd st1)" and
    d1: "fst ` set (fst st) \<subseteq> fst ` set (fst st1)" and
    u1: "\<forall>k. snd (snd k) \<noteq> filename other \<longrightarrow> map_of (fst st1) k = map_of (fst st) k" and
    c1: "\<forall>c \<in> set (numeric_columns ref). series_due key ref other c
              \<longrightarrow> (c, filename ref, filename other) \<in> fst ` set (fst st1)"
    by blast
  from Cons.IH[of st1] obtain st2 where
    s2: "compare_pairs key ref others st1 = Inr st2" and
    p2: "prefix (snd st1) (snd st2)" and
    d2: "fst ` set (fst st1) \<subseteq> fst ` set (fst st2)" and
    u2: "\<forall>k. snd (snd k) \<notin> filename ` set others \<longrightarrow> map_of (fst st2) k = map_of (fst st1) k" and
    c2: "\<forall>x \<in> set others. \<forall>c \<in> set (numeric_columns ref). series_due key ref x c
              \<longrightarrow> (c, filename ref, filename x) \<in> fst ` set (fst st2)"
    by blast
  have "compare_pairs key ref (other # others) st = Inr st2" using s1 s2 by simp
  moreover have "prefix (snd st) (snd st2)" using p1 p2 by (rule prefix_order.trans)
  moreover have "fst ` set (fst st) \<subseteq> fst ` set (fst st2)" using d1 d2 by blast
  moreover have "\<forall>k. snd (snd k) \<notin> filename ` set (other # others) \<longrightarrow> map_of (fst st2) k = map_of (fst st) k"
    using u1 u2 by simp
  moreover have "\<forall>x \<in> set (other # others). \<forall>c \<in> set (numeric_columns ref). series_due key ref x c
              \<longrightarrow> (c, filename ref, filename x) \<in> fst ` set (fst st2)"
    using c1 c2 d2 by auto
  ultimately show ?case by blast
qed


text \<open>
  Unless the key label ends in \<open>_OTH\<close>, the loop over the other tables returns normally
  from every starting state: the warnings it returns extend the warnings it started with,
  every key of the results it started with is still a key, a series of a pair that the
  loop does not visit is unchanged, and every column of every pair for which none of the
  five problems occurs has a series, whatever happened to the other pairs and columns.
  The same holds for the whole function on two or more tables. Each of the five problems
  (failed merge, empty join, reference column absent, other column absent, a side that is
  not numeric) returns the results unchanged with one warning appended.
\<close>

lemma warnings_without_key_clash:
  "(\<not> suffix ''_OTH'' key \<longrightarrow>
      (\<exists>st'. compare_pairs key ref others st = Inr st' \<and>
         prefix (snd st) (snd st') \<and>
         fst ` set (fst st) \<subseteq> fst ` set (fst st') \<and>
         (\<forall>k. snd (snd k) \<notin> filename ` set others \<longrightarrow> map_of (fst st') k = map_of (fst st) k) \<and>
         (\<forall>x \<in> set others. \<forall>c \<in> set (numeric_columns ref). series_due key ref x c
            \<longrightarrow> (c, filename ref, filename x) \<in> fst ` set (fst st')))) \<and>
   (\<not> suffix ''_OTH'' key \<longrightarrow>
      (\<exists>res ws. perform_column_comparison (ref # other # others) key = Inr (res, ws) \<and>
         (\<forall>x \<in> set (other # others). \<forall>c \<in> set (numeric_columns ref). series_due key ref x c
            \<longrightarrow> (c, filename ref, filename x) \<in> fst ` set res))) \<and>
   (merge_pair key ref other = Inl e \<longrightarrow>
      compare_pair key ref other st =
        Inr (fst st, snd st @ [MergeErrorWarning (filename ref) (filename other) e])) \<and>
   (merge_pair key ref other = Inr merged \<and> df_empty merged \<longrightarrow>
      compare_pair key ref other st =
        Inr (fst st, snd st @ [MergeWarning (filename ref) (filename other)])) \<and>
   (c @ ''_REF'' \<notin> set (columns merged) \<longrightarrow>
      compare_col key rf ofn merged st c =
        Inr (fst st, snd st @ [InternalLogicWarning c rf ofn])) \<and>
   (c @ ''_REF'' \<in> set (columns merged) \<and> c @ ''_OTH'' \<notin> set (columns merged) \<longrightarrow>
      compare_col key rf ofn merged st c =
        Inr (fst st, snd st @ [ColumnMissingInOtherWarning c rf ofn])) \<and>
   (c @ ''_REF'' \<in> set (columns merged) \<and> c @ ''_OTH'' \<in> set (columns merged) \<and>
    (\<not> is_numeric_dtype (getitem merged (c @ ''_REF'')) \<or>
     \<not> is_numeric_dtype (getitem merged (c @ ''_OTH''))) \<longrightarrow>
      compare_col key rf ofn merged st c =
        Inr (fst st, snd st @ [DataTypeWarning c rf ofn]))"
proof (intro conjI impI)
  assume a: "\<not> suffix ''_OTH'' key"
  show "\<exists>st'. compare_pairs key ref others st = Inr st' \<and>
         prefix (snd st) (snd st') \<and>
         fst ` set (fst st) \<subseteq> fst ` set (fst st') \<and>
         (\<forall>k. snd (snd k) \<notin> filename ` set others \<longrightarrow> map_of (fst st') k = map_of (fst st) k) \<and>
         (\<forall>x \<in> set others. \<forall>c \<in> set (numeric_columns ref). series_due key ref x c
            \<longrightarrow> (c, filename ref, filename x) \<in> fst ` set (fst st'))"
    by (rule compare_pairs_loop[OF a])
next
  assume a: "\<not> suffix ''_OTH'' key"
  let ?st0 = "([] :: comparison_results, if numeric_columns ref = [] then [DataWarning (filename ref)] else [])"
  from compare_pairs_loop[OF a, where ref=ref and others="other # others" and st="?st0"]
  obtain st' where
    s: "compare_pairs key ref (other # others) ?st0 = Inr st'" and
    c: "\<forall>x \<in> set (other # others). \<forall>c \<in> set (numeric_columns ref). series_due key ref x c
            \<longrightarrow> (c, filename ref, filename x) \<in> fst ` set (fst st')"
    by blast
  have "perform_column_comparison (ref # other # others) key = Inr (fst st', snd st')"
    using s by (simp add: perform_column_comparison_def)
  with c show "\<exists>res ws. perform_column_comparison (ref # other # others) key = Inr (res, ws) \<and>
         (\<forall>x \<in> set (other # others). \<forall>c \<in> set (numeric_columns ref). series_due key ref x c
            \<longrightarrow> (c, filename ref, filename x) \<in> fst ` set res)"
    by blast
qed (auto simp: compare_pair_def compare_col_def Let_def)



text \<open>
  The rounds of the second pair of the tables \<open>clash_ref\<close>, \<open>clash_part\<close> and
  \<open>clash_full\<close>, whose key column is called \<open>v_OTH\<close>: the column \<open>v\<close> is skipped with a
  warning, because its label with the suffix selects two columns, and the column \<open>w\<close>, for
  which none of the five problems occurs, raises ValueError.
\<close>

lemma key_clash_rounds:
  "compare_col ''v_OTH'' ''ref.csv'' ''full.csv'' clash_merged ([], []) ''v'' =
     Inr ([], [DataTypeWarning ''v'' ''ref.csv'' ''full.csv'']) \<and>
   series_due ''v_OTH'' clash_ref clash_full ''w'' \<and>
   compare_col ''v_OTH'' ''ref.csv'' ''full.csv'' clash_merged ([], []) ''w'' = Inl ValueError"
  by code_simp


lemma count_list_pos: "0 < count_list xs k \<longleftrightarrow> k \<in> set xs"
  by (induction xs) auto

text \<open>
  When the two key columns have the same dtype, the key values of the merged frame are
  the key values that both tables have.
\<close>

lemma join_keys_intersection:
  assumes "merge_pair key ref other = Inr merged" and "getitem merged key = [kc]"
      and "getitem (dataframe ref) key = [lk]" and "getitem (dataframe other) key = [rk]"
      and "col_dtype lk = col_dtype rk"
  shows "set (col_cells kc) = set (col_cells lk) \<inter> set (col_cells rk)"
proof -
  from merge_pair_key[OF assms(1)] assms(2,3,4) have
    kc: "kc = take_rows (map fst (join_pairs (match_cells lk rk) (match_cells rk lk))) lk"
    by auto
  from assms(5) have m: "match_cells lk rk = map (\<lambda>x. x) (col_cells lk)" "match_cells rk lk = col_cells rk"
    by (simp_all add: match_cells_same)
  have "k \<in> set (col_cells kc) \<longleftrightarrow> k \<in> set (col_cells lk) \<and> k \<in> set (col_cells rk)" for k
  proof -
    have "0 < count_list (col_cells kc) k \<longleftrightarrow>
          0 < count_list (col_cells lk) k * count_list (col_cells rk) k"
      by (simp only: kc take_rows_def column.sel m join_count)
    then show ?thesis by (simp add: count_list_pos)
  qed
  then show ?thesis by auto
qed

text \<open>
  With a key column called \<open>difference\<close> the stored frame has the differences as its only
  column: the key values are not in it.
\<close>

lemma difference_key_series:
  "perform_column_comparison [named_ref, named_oth] ''difference'' =
     Inr ([((''v'', ''ref.csv'', ''oth.csv''), [(''difference'', Col Int64 [Num 3, Num 7])])], [])"
  by code_simp

section \<open>Properties of the validator\<close>


lemma filter_update_key:
  "key \<in> fst ` set df \<Longrightarrow>
   \<exists>rest. filter (\<lambda>lc. fst lc = key) (AList.update key c df) = (key, c) # rest"
  by (induction df) auto

lemma series_setitem:
  "key \<in> set (columns df) \<Longrightarrow> series (setitem df key c) key = c"
  using filter_update_key[of key df c]
  by (auto simp: series_def setitem_def getitem_def columns_def)

lemma series_coerced:
  "key \<in> set (columns df) \<Longrightarrow> series (with_coerced_key to_num key df) key = coerced_key to_num key df"
  by (simp add: with_coerced_key_def coerced_key_def series_setitem)

lemma coerced_numeric:
  "key \<in> set (columns df) \<Longrightarrow> col_dtype (coerced_key to_num key df) \<noteq> Object"
  by (auto simp: coerced_key_def to_numeric_def is_numeric_dtype_def series_def Let_def split: list.splits)

lemma copy_nth: "(h @ [h ! src]) ! length h = h ! src"
  by simp

lemma validate_rest_store: "fst (validate_rest key h a) = h"
  by (simp add: validate_rest_def Let_def)

lemma validate_rest_result:
  "snd (validate_rest key h a) = Inr acc \<Longrightarrow> fst acc = a \<and> \<not> isna_any (series (h ! a) key)"
  by (auto simp: validate_rest_def Let_def split: if_splits)

lemma validate_rest_nan:
  "isna_any (series (h ! a) key) \<Longrightarrow> snd (validate_rest key h a) = Inl ContainsNaN"
  by (simp add: validate_rest_def Let_def)

lemma validate_item_frame:
  assumes "validate_item to_num key h src = (h', r)"
  shows "length h' = Suc (length h) \<and> (\<forall>b < length h. h' ! b = h ! b)"
proof -
  let ?h1 = "h @ [h ! src]"
  let ?h2 = "?h1[length h := setitem (?h1 ! length h) key (to_numeric to_num (series (?h1 ! length h) key))]"
  from assms have "h' = ?h1 \<or> h' = ?h2"
    by (auto simp: validate_item_def df_copy_def Let_def split: if_splits
        dest: arg_cong[where f=fst] simp: validate_rest_store)
  then show ?thesis by (auto simp: nth_append)
qed

lemma validate_item_accepts:
  assumes "validate_item to_num key h src = (h', Inr acc)"
  shows "fst acc = length h \<and> key \<in> set (columns (h ! src)) \<and>
         h' ! fst acc = with_coerced_key to_num key (h ! src) \<and>
         \<not> isna_any (coerced_key to_num key (h ! src))"
proof -
  let ?df = "h ! src"
  let ?h1 = "h @ [?df]"
  from assms have key: "key \<in> set (columns ?df)"
    by (auto simp: validate_item_def df_copy_def Let_def split: if_splits)
  show ?thesis
  proof (cases "is_numeric_dtype (getitem ?df key)")
    case True
    with assms key have v: "validate_rest key ?h1 (length h) = (h', Inr acc)"
      by (simp add: validate_item_def df_copy_def Let_def)
    then have "h' = ?h1" using validate_rest_store[of key ?h1 "length h"] by simp
    moreover from v have "fst acc = length h \<and> \<not> isna_any (series (?h1 ! length h) key)"
      using validate_rest_result[of key ?h1 "length h" acc] by simp
    ultimately show ?thesis using key True
      by (simp add: with_coerced_key_def coerced_key_def)
  next
    case False
    let ?conv = "to_numeric to_num (series ?df key)"
    let ?h2 = "?h1[length h := setitem ?df key ?conv]"
    from assms key False have nn: "\<not> isna_any (series (?h2 ! length h) key)"
      and v: "validate_rest key ?h2 (length h) = (h', Inr acc)"
      by (auto simp: validate_item_def df_copy_def Let_def split: if_splits)
    from v have "h' = ?h2" using validate_rest_store[of key ?h2 "length h"] by simp
    moreover from v have "fst acc = length h"
      using validate_rest_result[of key ?h2 "length h" acc] by simp
    moreover have "?h2 ! length h = setitem ?df key ?conv" by simp
    ultimately show ?thesis using key False nn
      by (simp add: with_coerced_key_def coerced_key_def series_setitem)
  qed
qed

lemma validate_item_rejects:
  assumes key: "key \<in> set (columns (h ! src))"
      and nan: "isna_any (coerced_key to_num key (h ! src))"
  shows "\<exists>h' e. validate_item to_num key h src = (h', Inl e) \<and>
           (e = DataLoss \<or> missing_values_diagnostic e) \<and>
           (e = DataLoss \<longleftrightarrow>
              \<not> is_numeric_dtype (getitem (h ! src) key) \<and>
              isna_all (coerced_key to_num key (h ! src)) \<and>
              0 < notna_count (series (h ! src) key))"
proof -
  let ?df = "h ! src"
  let ?h1 = "h @ [?df]"
  show ?thesis
  proof (cases "is_numeric_dtype (getitem ?df key)")
    case True
    with nan have "isna_any (series (?h1 ! length h) key)" by (simp add: coerced_key_def)
    then have "validate_rest key ?h1 (length h) = (?h1, Inl ContainsNaN)"
      using validate_rest_nan[of ?h1 "length h" key] validate_rest_store[of key ?h1 "length h"]
      by (metis prod.collapse)
    with key True show ?thesis
      by (simp add: validate_item_def df_copy_def Let_def missing_values_diagnostic_def)
  next
    case False
    let ?conv = "to_numeric to_num (series ?df key)"
    from False have ck: "coerced_key to_num key ?df = ?conv" by (simp add: coerced_key_def)
    show ?thesis
    proof (cases "isna_all ?conv \<and> 0 < notna_count (series ?df key)")
      case True
      with key False show ?thesis
        by (simp add: validate_item_def df_copy_def Let_def ck)
    next
      case no_loss: False
      let ?h2 = "?h1[length h := setitem ?df key ?conv]"
      have "series (?h2 ! length h) key = ?conv" using key by (simp add: series_setitem)
      with nan ck have "isna_any (series (?h2 ! length h) key)" by simp
      with key False no_loss have "validate_item to_num key h src = (?h2, Inl ConvertedToNaN)"
        by (auto simp: validate_item_def df_copy_def Let_def)
      with False no_loss show ?thesis
        by (auto simp: missing_values_diagnostic_def ck)
    qed
  qed
qed

lemma validate_items_loop:
  assumes "validate_items to_num key h items st = (h', st')"
      and "\<forall>item \<in> set items. snd item < length h"
  shows "length h' = length h + length items \<and> (\<forall>b < length h. h' ! b = h ! b) \<and>
     (\<exists>new_v new_e. fst st' = fst st @ new_v \<and> snd st' = snd st @ new_e \<and>
        (\<forall>v \<in> set new_v. accepted_ok to_num key h h' items v) \<and>
        (\<forall>item \<in> set items. rejected_ok to_num key h new_e item))"
  using assms
proof (induction items arbitrary: h st)
  case Nil
  then show ?case by simp
next
  case (Cons item items)
  obtain h1 r where step: "validate_item to_num key h (snd item) = (h1, r)"
    by (cases "validate_item to_num key h (snd item)") auto
  from validate_item_frame[OF step] have len1: "length h1 = Suc (length h)"
    and same1: "\<forall>b < length h. h1 ! b = h ! b" by simp_all
  from Cons.prems(2) have valid1: "\<forall>it \<in> set items. snd it < length h1"
    and src: "snd item < length h" by (simp_all add: len1 less_Suc_eq)
  define st1 where "st1 = (case r of Inl e \<Rightarrow> (fst st, snd st @ [(fst item, e)])
                                    | Inr acc \<Rightarrow> (fst st @ [(fst item, acc)], snd st))"
  from Cons.prems(1) step have rest: "validate_items to_num key h1 items st1 = (h', st')"
    by (auto simp: st1_def split: sum.splits)
  from Cons.IH[OF rest valid1] obtain new_v new_e where
    len': "length h' = length h1 + length items" and
    same': "\<forall>b < length h1. h' ! b = h1 ! b" and
    v': "fst st' = fst st1 @ new_v" and e': "snd st' = snd st1 @ new_e" and
    acc': "\<forall>v \<in> set new_v. accepted_ok to_num key h1 h' items v" and
    rej': "\<forall>it \<in> set items. rejected_ok to_num key h1 new_e it"
    by blast
  have same: "\<forall>b < length h. h' ! b = h ! b" using same' same1 len1 by simp
  have acc_lift: "accepted_ok to_num key h h' (item # items) v" if "v \<in> set new_v" for v
  proof -
    from acc' that obtain s where s: "(fst v, s) \<in> set items" "length h1 \<le> fst (snd v)"
      "fst (snd v) < length h'" "key \<in> set (columns (h1 ! s))"
      "h' ! fst (snd v) = with_coerced_key to_num key (h1 ! s)"
      "\<not> isna_any (coerced_key to_num key (h1 ! s))"
      by (auto simp: accepted_ok_def)
    from s(1) Cons.prems(2) have "s < length h" by force
    with same1 have "h1 ! s = h ! s" by simp
    with s len1 show ?thesis by (auto simp: accepted_ok_def)
  qed
  have rej_lift: "rejected_ok to_num key h (es @ new_e) it" if "it \<in> set items" for it es
  proof -
    from that Cons.prems(2) have "snd it < length h" by simp
    with same1 have "h1 ! snd it = h ! snd it" by simp
    with rej' that show ?thesis by (auto simp: rejected_ok_def)
  qed
  show ?case
  proof (cases r)
    case (Inl e)
    then have st1: "st1 = (fst st, snd st @ [(fst item, e)])" by (simp add: st1_def)
    have "rejected_ok to_num key h ([(fst item, e)] @ new_e) item"
    proof (cases "key \<in> set (columns (h ! snd item)) \<and> isna_any (coerced_key to_num key (h ! snd item))")
      case True
      with validate_item_rejects[of key h "snd item" to_num] step Inl
      have "e = DataLoss \<or> missing_values_diagnostic e" by auto
      then show ?thesis by (auto simp: rejected_ok_def)
    next
      case False
      then show ?thesis by (auto simp: rejected_ok_def)
    qed
    with rej_lift[of _ "[(fst item, e)]"]
    have "\<forall>it \<in> set (item # items). rejected_ok to_num key h ([(fst item, e)] @ new_e) it" by simp
    moreover have "fst st' = fst st @ new_v" "snd st' = snd st @ ([(fst item, e)] @ new_e)"
      using v' e' st1 by simp_all
    moreover have "length h' = length h + length (item # items)" using len' len1 by simp
    ultimately show ?thesis using same acc_lift by blast
  next
    case (Inr acc)
    then have st1: "st1 = (fst st @ [(fst item, acc)], snd st)" by (simp add: st1_def)
    from step Inr have "validate_item to_num key h (snd item) = (h1, Inr acc)" by simp
    from validate_item_accepts[OF this]
    have a: "fst acc = length h" "key \<in> set (columns (h ! snd item))"
      "h1 ! fst acc = with_coerced_key to_num key (h ! snd item)"
      "\<not> isna_any (coerced_key to_num key (h ! snd item))" by blast+
    have "h' ! fst acc = h1 ! fst acc" using same' a(1) len1 by simp
    with a len' len1 have "accepted_ok to_num key h h' (item # items) (fst item, acc)"
      by (auto simp: accepted_ok_def intro!: exI[of _ "snd item"])
    with acc_lift have "\<forall>v \<in> set ([(fst item, acc)] @ new_v). accepted_ok to_num key h h' (item # items) v"
      by auto
    moreover have "rejected_ok to_num key h new_e item" using a(4) by (simp add: rejected_ok_def)
    with rej_lift[of _ "[]"] have "\<forall>it \<in> set (item # items). rejected_ok to_num key h new_e it" by simp
    moreover have "fst st' = fst st @ ([(fst item, acc)] @ new_v)" "snd st' = snd st @ new_e"
      using v' e' st1 by simp_all
    moreover have "length h' = length h + length (item # items)" using len' len1 by simp
    ultimately show ?thesis using same by blast
  qed
qed

lemma validate_items_frame:
  "validate_items to_num key h items st = (h', st') \<Longrightarrow>
   length h' = length h + length items \<and> (\<forall>b < length h. h' ! b = h ! b)"
proof (induction items arbitrary: h st)
  case Nil
  then show ?case by simp
next
  case (Cons item items)
  obtain h1 r where step: "validate_item to_num key h (snd item) = (h1, r)"
    by (cases "validate_item to_num key h (snd item)") auto
  from validate_item_frame[OF step] have len1: "length h1 = Suc (length h)"
    and same1: "\<forall>b < length h. h1 ! b = h ! b" by simp_all
  from Cons.prems step obtain st1 where "validate_items to_num key h1 items st1 = (h', st')"
    by (auto split: sum.splits)
  from Cons.IH[OF this] have "length h' = length h1 + length items" "\<forall>b < length h1. h' ! b = h1 ! b"
    by simp_all
  with len1 same1 show ?case by simp
qed

lemma coerced_key_length:
  "length (col_cells (coerced_key to_num key df)) = length (col_cells (series df key))"
  by (simp add: coerced_key_def to_numeric_def Let_def)

text \<open>
  C3, amended. A table that has the key column and whose key column, after numeric
  coercion, has a missing cell is rejected. The diagnostic is the data-loss one exactly
  when the column was not numeric, every coerced cell is missing and some cell was
  present before; otherwise it is one of the two missing-values diagnostics. For the whole
  function, on input tables stored at valid addresses: every such table has its entry in
  the error list, and every accepted entry is the copy of an input table that has the key
  column with no missing cell after coercion; the copy holds the input frame with the key
  column coerced, so no row is dropped, and its key column is numeric (int64 or float64) without a
  missing cell.
\<close>

theorem nan_key_rejected:
  "(key \<in> set (columns (h ! src)) \<and> isna_any (coerced_key to_num key (h ! src)) \<longrightarrow>
      (\<exists>h1 e. validate_item to_num key h src = (h1, Inl e) \<and>
         (e = DataLoss \<or> missing_values_diagnostic e) \<and>
         (e = DataLoss \<longleftrightarrow>
            \<not> is_numeric_dtype (getitem (h ! src) key) \<and>
            isna_all (coerced_key to_num key (h ! src)) \<and>
            0 < notna_count (series (h ! src) key)))) \<and>
   ((\<forall>item \<in> set items. snd item < length h) \<and>
    validate_dataframes_for_processing to_num h items key = (h', validated, errors) \<longrightarrow>
      (\<forall>item \<in> set items.
         key \<in> set (columns (h ! snd item)) \<and> isna_any (coerced_key to_num key (h ! snd item)) \<longrightarrow>
           (\<exists>e. (fst item, e) \<in> set errors \<and> (e = DataLoss \<or> missing_values_diagnostic e))) \<and>
      (\<forall>v \<in> set validated.
         \<exists>src. (fst v, src) \<in> set items \<and>
           key \<in> set (columns (h ! src)) \<and>
           \<not> isna_any (coerced_key to_num key (h ! src)) \<and>
           h' ! fst (snd v) = with_coerced_key to_num key (h ! src) \<and>
           col_dtype (series (h' ! fst (snd v)) key) \<noteq> Object \<and>
           \<not> isna_any (series (h' ! fst (snd v)) key) \<and>
           length (col_cells (series (h' ! fst (snd v)) key)) =
             length (col_cells (series (h ! src) key))))"
proof (intro conjI impI)
  assume "key \<in> set (columns (h ! src)) \<and> isna_any (coerced_key to_num key (h ! src))"
  then show "\<exists>h1 e. validate_item to_num key h src = (h1, Inl e) \<and>
         (e = DataLoss \<or> missing_values_diagnostic e) \<and>
         (e = DataLoss \<longleftrightarrow>
            \<not> is_numeric_dtype (getitem (h ! src) key) \<and>
            isna_all (coerced_key to_num key (h ! src)) \<and>
            0 < notna_count (series (h ! src) key))"
    using validate_item_rejects[of key h src to_num] by blast
next
  assume a: "(\<forall>item \<in> set items. snd item < length h) \<and>
    validate_dataframes_for_processing to_num h items key = (h', validated, errors)"
  then have run: "validate_items to_num key h items ([], []) = (h', (validated, errors))"
    by (simp add: validate_dataframes_for_processing_def)
  from validate_items_loop[OF run] a
  have acc: "\<forall>v \<in> set validated. accepted_ok to_num key h h' items v"
    and rej: "\<forall>item \<in> set items. rejected_ok to_num key h errors item"
    by auto
  from rej show "\<forall>item \<in> set items.
         key \<in> set (columns (h ! snd item)) \<and> isna_any (coerced_key to_num key (h ! snd item)) \<longrightarrow>
           (\<exists>e. (fst item, e) \<in> set errors \<and> (e = DataLoss \<or> missing_values_diagnostic e))"
    by (simp add: rejected_ok_def)
  show "\<forall>v \<in> set validated.
         \<exists>src. (fst v, src) \<in> set items \<and>
           key \<in> set (columns (h ! src)) \<and>
           \<not> isna_any (coerced_key to_num key (h ! src)) \<and>
           h' ! fst (snd v) = with_coerced_key to_num key (h ! src) \<and>
           col_dtype (series (h' ! fst (snd v)) key) \<noteq> Object \<and>
           \<not> isna_any (series (h' ! fst (snd v)) key) \<and>
           length (col_cells (series (h' ! fst (snd v)) key)) =
             length (col_cells (series (h ! src) key))"
  proof
    fix v assume "v \<in> set validated"
    with acc obtain src where s: "(fst v, src) \<in> set items" "key \<in> set (columns (h ! src))"
      "h' ! fst (snd v) = with_coerced_key to_num key (h ! src)"
      "\<not> isna_any (coerced_key to_num key (h ! src))"
      by (auto simp: accepted_ok_def)
    from s(2,3) have "series (h' ! fst (snd v)) key = coerced_key to_num key (h ! src)"
      by (simp add: series_coerced)
    with s show "\<exists>src. (fst v, src) \<in> set items \<and>
           key \<in> set (columns (h ! src)) \<and>
           \<not> isna_any (coerced_key to_num key (h ! src)) \<and>
           h' ! fst (snd v) = with_coerced_key to_num key (h ! src) \<and>
           col_dtype (series (h' ! fst (snd v)) key) \<noteq> Object \<and>
           \<not> isna_any (series (h' ! fst (snd v)) key) \<and>
           length (col_cells (series (h' ! fst (snd v)) key)) =
             length (col_cells (series (h ! src) key))"
      by (auto simp: coerced_numeric coerced_key_length intro!: exI[of _ src])
  qed
qed

theorem nan_key_rejected_witness:
  "''op_col'' \<in> set (columns (val_store ! 1)) \<and>
   isna_any (coerced_key decimal_to_num ''op_col'' (val_store ! 1)) \<and>
   validate_item decimal_to_num ''op_col'' val_store 1 = (val_store @ [mixed_coerced], Inl ConvertedToNaN) \<and>
   missing_values_diagnostic ConvertedToNaN \<and>
   list_all (\<lambda>item. snd item < length val_store) val_items \<and>
   validate_dataframes_for_processing decimal_to_num val_store val_items ''op_col'' =
     (val_store_after, [(''c.csv'', 6, [''data_col1''])],
      [(''a.csv'', DataLoss), (''b.csv'', ConvertedToNaN), (''d.csv'', ContainsNaN)]) \<and>
   val_store_after ! 6 = with_coerced_key decimal_to_num ''op_col'' (val_store ! 2) \<and>
   col_dtype (series (val_store_after ! 6) ''op_col'') \<noteq> Object \<and>
   \<not> isna_any (series (val_store_after ! 6) ''op_col'')"
proof -
  have k: "''op_col'' \<in> set (columns (val_store ! 1))" by code_simp
  have n: "isna_any (coerced_key decimal_to_num ''op_col'' (val_store ! 1))" by code_simp
  have one: "validate_item decimal_to_num ''op_col'' val_store 1 =
      (val_store @ [mixed_coerced], Inl ConvertedToNaN)" by code_simp
  have m: "missing_values_diagnostic ConvertedToNaN" by (simp add: missing_values_diagnostic_def)
  have valid: "list_all (\<lambda>item. snd item < length val_store) val_items" by code_simp
  then have valid': "\<forall>item \<in> set val_items. snd item < length val_store"
    by (simp add: list_all_iff)
  have run: "validate_dataframes_for_processing decimal_to_num val_store val_items ''op_col'' =
     (val_store_after, [(''c.csv'', 6, [''data_col1''])],
      [(''a.csv'', DataLoss), (''b.csv'', ConvertedToNaN), (''d.csv'', ContainsNaN)])" by code_simp
  have c: "val_store_after ! 6 = with_coerced_key decimal_to_num ''op_col'' (val_store ! 2)"
    by code_simp
  from nan_key_rejected [where key="''op_col''" and h=val_store and src=1 and to_num=decimal_to_num
      and items=val_items and h'=val_store_after and validated="[(''c.csv'', 6, [''data_col1''])]"
      and errors="[(''a.csv'', DataLoss), (''b.csv'', ConvertedToNaN), (''d.csv'', ContainsNaN)]"]
    valid' run
  have "col_dtype (series (val_store_after ! 6) ''op_col'') \<noteq> Object \<and>
        \<not> isna_any (series (val_store_after ! 6) ''op_col'')"
    by auto
  with k n one m valid run c show ?thesis by blast
qed

text \<open>
  C3 as stated fails at the table \<open>letters_frame\<close>: its key column holds \<open>x\<close>, \<open>y\<close>, \<open>z\<close>,
  every cell is missing after coercion, and the table is rejected with the data-loss
  diagnostic, which is not one of the missing-values diagnostics.
\<close>

theorem nan_key_rejected_counterexample:
  "''op_col'' \<in> set (columns letters_frame) \<and>
   isna_any (coerced_key decimal_to_num ''op_col'' letters_frame) \<and>
   validate_item decimal_to_num ''op_col'' [letters_frame] 0 =
     ([letters_frame, letters_frame], Inl DataLoss) \<and>
   \<not> missing_values_diagnostic DataLoss"
  by code_simp

text \<open>
  C9. Validation changes no frame that is in the store when it is called: every address
  of the old store holds the same frame afterwards, and the store only grows, by one copy
  per input table. When the input tables are in the old store, every accepted entry points
  to one of the new frames, and that frame is the input frame with its key column
  coerced.
\<close>

theorem validation_keeps_inputs:
  "validate_dataframes_for_processing to_num h items key = (h', validated, errors) \<longrightarrow>
     length h' = length h + length items \<and>
     (\<forall>b < length h. h' ! b = h ! b) \<and>
     ((\<forall>item \<in> set items. snd item < length h) \<longrightarrow>
        (\<forall>v \<in> set validated.
           length h \<le> fst (snd v) \<and> fst (snd v) < length h' \<and>
           (\<exists>src. (fst v, src) \<in> set items \<and>
              h' ! fst (snd v) = with_coerced_key to_num key (h ! src))))"
proof (intro impI conjI)
  assume "validate_dataframes_for_processing to_num h items key = (h', validated, errors)"
  then have run: "validate_items to_num key h items ([], []) = (h', (validated, errors))"
    by (simp add: validate_dataframes_for_processing_def)
  from validate_items_frame[OF run]
  show "length h' = length h + length items" "\<forall>b < length h. h' ! b = h ! b" by simp_all
  assume "\<forall>item \<in> set items. snd item < length h"
  from validate_items_loop[OF run this]
  have "\<forall>v \<in> set validated. accepted_ok to_num key h h' items v" by auto
  then show "\<forall>v \<in> set validated.
           length h \<le> fst (snd v) \<and> fst (snd v) < length h' \<and>
           (\<exists>src. (fst v, src) \<in> set items \<and>
              h' ! fst (snd v) = with_coerced_key to_num key (h ! src))"
    by (auto simp: accepted_ok_def)
qed

theorem validation_keeps_inputs_witness:
  "validate_dataframes_for_processing decimal_to_num val_store val_items ''op_col'' =
     (val_store_after, [(''c.csv'', 6, [''data_col1''])],
      [(''a.csv'', DataLoss), (''b.csv'', ConvertedToNaN), (''d.csv'', ContainsNaN)]) \<and>
   list_all (\<lambda>item. snd item < length val_store) val_items \<and>
   length val_store_after = length val_store + length val_items \<and>
   val_store_after ! 2 = numerals_frame \<and> val_store ! 2 = numerals_frame \<and>
   val_store_after ! 6 = numerals_coerced \<and>
   numerals_coerced = with_coerced_key decimal_to_num ''op_col'' numerals_frame \<and>
   numerals_coerced \<noteq> numerals_frame"
proof -
  have run: "validate_dataframes_for_processing decimal_to_num val_store val_items ''op_col'' =
     (val_store_after, [(''c.csv'', 6, [''data_col1''])],
      [(''a.csv'', DataLoss), (''b.csv'', ConvertedToNaN), (''d.csv'', ContainsNaN)])" by code_simp
  have valid: "list_all (\<lambda>item. snd item < length val_store) val_items" by code_simp
  have two: "val_store ! 2 = numerals_frame" by code_simp
  have six: "val_store_after ! 6 = numerals_coerced" by code_simp
  have co: "numerals_coerced = with_coerced_key decimal_to_num ''op_col'' numerals_frame" by code_simp
  have ne: "numerals_coerced \<noteq> numerals_frame" by code_simp
  have lt: "(2::nat) < length val_store" by code_simp
  from validation_keeps_inputs [where to_num=decimal_to_num and h=val_store and items=val_items
      and key="''op_col''" and h'=val_store_after and validated="[(''c.csv'', 6, [''data_col1''])]"
      and errors="[(''a.csv'', DataLoss), (''b.csv'', ConvertedToNaN), (''d.csv'', ContainsNaN)]"]
    run lt
  have "length val_store_after = length val_store + length val_items \<and>
        val_store_after ! 2 = val_store ! 2"
    by blast
  with run valid two six co ne show ?thesis by simp
qed

section \<open>Properties of the highlight set\<close>


lemma masked_keys:
  "map fst (filter snd (zip ks (map P ds))) = map fst (filter (\<lambda>e. P (snd e)) (zip ks ds))"
proof (induction ks arbitrary: ds)
  case Nil
  then show ?case by simp
next
  case (Cons k ks)
  then show ?case by (cases ds) auto
qed

lemma exceeding_keys_wf:
  "wf_series key df \<Longrightarrow>
   exceeding_keys thr key df =
     Inr (map fst (filter (\<lambda>e. exceeds thr (col_dtype (series df ''difference'')) (snd e))
                    (series_entries key df)))"
  by (simp add: wf_series_def exceeding_keys_def Let_def series_entries_def masked_keys)

lemma add_rows_set:
  "add_rows rf ofn vals rows = rows \<union> {(f, v). v \<in> set vals \<and> (f = rf \<or> f = ofn)}"
  by (induction vals arbitrary: rows) auto

lemma highlight_rows_wf:
  assumes "\<forall>item \<in> set items. wf_series key (snd item)"
  shows "\<exists>rows'. highlight_rows thr key items rows = Inr rows' \<and>
     rows' = rows \<union> {(f, v). \<exists>item \<in> set items. \<exists>d.
                (v, d) \<in> set (series_entries key (snd item)) \<and>
                exceeds thr (col_dtype (series (snd item) ''difference'')) d \<and>
                (f = fst (snd (fst item)) \<or> f = snd (snd (fst item)))}"
  using assms
proof (induction items arbitrary: rows)
  case Nil
  then show ?case by simp
next
  case (Cons item items)
  let ?vals = "map fst (filter (\<lambda>e. exceeds thr (col_dtype (series (snd item) ''difference'')) (snd e))
                         (series_entries key (snd item)))"
  let ?rows1 = "add_rows (fst (snd (fst item))) (snd (snd (fst item))) ?vals rows"
  from Cons.prems have wf: "wf_series key (snd item)" and wfs: "\<forall>it \<in> set items. wf_series key (snd it)"
    by simp_all
  from Cons.IH[OF wfs, of ?rows1] obtain rows' where
    r: "highlight_rows thr key items ?rows1 = Inr rows'" and
    s: "rows' = ?rows1 \<union> {(f, v). \<exists>item \<in> set items. \<exists>d.
                (v, d) \<in> set (series_entries key (snd item)) \<and>
                exceeds thr (col_dtype (series (snd item) ''difference'')) d \<and>
                (f = fst (snd (fst item)) \<or> f = snd (snd (fst item)))}"
    by blast
  have "highlight_rows thr key (item # items) rows = Inr rows'"
    using r by (simp add: exceeding_keys_wf[OF wf])
  moreover have "rows' = rows \<union> {(f, v). \<exists>it \<in> set (item # items). \<exists>d.
                (v, d) \<in> set (series_entries key (snd it)) \<and>
                exceeds thr (col_dtype (series (snd it) ''difference'')) d \<and>
                (f = fst (snd (fst it)) \<or> f = snd (snd (fst it)))}"
    unfolding s add_rows_set by force
  ultimately show ?case by blast
qed


lemma set_update_cases: "x \<in> set (AList.update k v al) \<Longrightarrow> x = (k, v) \<or> x \<in> set al"
  by (induction al) (auto split: if_splits)

lemma int64_abs_diff_no_text: "int64_abs_diff x y \<noteq> Str s"
  by (cases x; cases y) simp_all

lemma to_float64_no_text: "to_float64 r \<noteq> Str s"
  by (simp add: to_float64_def round_to_multiple_def Let_def)

lemma float_sub_no_text: "float_sub x y \<noteq> Str s"
  by (cases x; cases y) (simp_all add: float_sub_def to_float64_no_text)

lemma float_abs_no_text: "x \<noteq> Str s \<Longrightarrow> float_abs x \<noteq> Str s'"
  by (cases x) simp_all

lemma float64_abs_diff_no_text: "float64_abs_diff x y \<noteq> Str s"
  unfolding float64_abs_diff_def
proof (cases "float_sub x y")
  case (Str t)
  then show "float_abs (float_sub x y) \<noteq> Str s" using float_sub_no_text[of x y t] by simp
qed simp_all

lemma abs_diff_no_text: "\<not> has_text (abs_diff_col a b)"
proof -
  have "(case int64_abs_diff x y of Str s \<Rightarrow> True | _ \<Rightarrow> False) = False" for x y
    by (cases "int64_abs_diff x y") (auto simp: int64_abs_diff_no_text)
  moreover have "(case float64_abs_diff x y of Str s \<Rightarrow> True | _ \<Rightarrow> False) = False" for x y
    by (cases "float64_abs_diff x y") (auto simp: float64_abs_diff_no_text)
  ultimately show ?thesis by (auto simp: has_text_def abs_diff_col_def)
qed

lemma wf_diff_frame: "wf_series key (diff_frame key kc (abs_diff_col a b))"
proof -
  have "series (diff_frame key kc (abs_diff_col a b)) ''difference'' = abs_diff_col a b"
    by (simp add: series_def getitem_diff_frame)
  then show ?thesis
    by (auto simp: wf_series_def abs_diff_no_text) (auto simp: diff_frame_def columns_def)
qed

lemma compare_col_wf:
  assumes wf: "\<forall>r \<in> set (fst st). wf_series key (snd r)"
      and step: "compare_col key rf ofn merged st c = Inr st'"
  shows "\<forall>r \<in> set (fst st'). wf_series key (snd r)"
proof (cases "fst st' = fst st")
  case True
  with wf show ?thesis by simp
next
  case False
  with step obtain kc a b where
    "fst st' = AList.update (c, rf, ofn) (diff_frame key kc (abs_diff_col a b)) (fst st)"
    by (auto simp: compare_col_def Let_def split: if_splits list.splits)
  then show ?thesis using wf wf_diff_frame by (auto dest!: set_update_cases)
qed

lemma compare_cols_wf:
  assumes "\<forall>r \<in> set (fst st). wf_series key (snd r)"
      and "compare_cols key rf ofn merged cs st = Inr st'"
  shows "\<forall>r \<in> set (fst st'). wf_series key (snd r)"
  using assms
proof (induction cs arbitrary: st)
  case Nil
  then show ?case by simp
next
  case (Cons c cs)
  from Cons.prems(2) obtain st1 where s1: "compare_col key rf ofn merged st c = Inr st1"
    and s2: "compare_cols key rf ofn merged cs st1 = Inr st'"
    by (auto split: sum.splits)
  from compare_col_wf[OF Cons.prems(1) s1] Cons.IH[OF _ s2] show ?case by blast
qed

lemma compare_pair_wf:
  assumes "\<forall>r \<in> set (fst st). wf_series key (snd r)"
      and "compare_pair key ref other st = Inr st'"
  shows "\<forall>r \<in> set (fst st'). wf_series key (snd r)"
  using assms
  by (auto simp: compare_pair_def split: sum.splits if_splits dest: compare_cols_wf[rotated])

lemma compare_pairs_wf:
  assumes "\<forall>r \<in> set (fst st). wf_series key (snd r)"
      and "compare_pairs key ref others st = Inr st'"
  shows "\<forall>r \<in> set (fst st'). wf_series key (snd r)"
  using assms
proof (induction others arbitrary: st)
  case Nil
  then show ?case by simp
next
  case (Cons x xs)
  from Cons.prems(2) obtain st1 where s1: "compare_pair key ref x st = Inr st1"
    and s2: "compare_pairs key ref xs st1 = Inr st'"
    by (auto split: sum.splits)
  from compare_pair_wf[OF Cons.prems(1) s1] Cons.IH[OF _ s2] show ?case by blast
qed

lemma comparison_results_wf:
  "perform_column_comparison tables key = Inr (res, ws) \<Longrightarrow> \<forall>r \<in> set res. wf_series key (snd r)"
proof -
  assume a: "perform_column_comparison tables key = Inr (res, ws)"
  show ?thesis
  proof (cases "\<exists>ref other others. tables = ref # other # others")
    case True
    then obtain ref other others where t: "tables = ref # other # others" by blast
    let ?st0 = "([] :: comparison_results, if numeric_columns ref = [] then [DataWarning (filename ref)] else [])"
    from a t have "compare_pairs key ref (other # others) ?st0 = Inr (res, ws)"
      by (simp add: perform_column_comparison_def)
    from compare_pairs_wf[OF _ this] show ?thesis by simp
  next
    case False
    then have "perform_column_comparison tables key = Inr ([], [SetupWarning])"
      by (auto simp: perform_column_comparison_def split: list.splits)
    with a show ?thesis by simp
  qed
qed

text \<open>
  For result frames as the comparison builds them, the loop returns a set, and a pair
  (file, key value) is in the set if and only if some entry of a series of that file, as
  reference or as other file, has this key value and a difference that exceeds the
  threshold in the arithmetic of the column. The key values visited for one frame are
  exactly those of its entries with such a difference, one visit per entry, and each visit
  adds the pair of the reference file and the pair of the other file. On a float64 column
  a difference exceeds the threshold when its absolute value is strictly greater, and a
  missing difference never does. Every frame returned by the comparison is such a result
  frame.
\<close>

lemma highlight_structure:
  "((\<forall>item \<in> set results. wf_series key (snd item)) \<longrightarrow>
      (\<exists>rows. rows_to_highlight_map results key thr = Inr rows \<and>
         (\<forall>f v. (f, v) \<in> rows \<longleftrightarrow>
            (\<exists>item \<in> set results. \<exists>d.
               (v, d) \<in> set (series_entries key (snd item)) \<and>
               exceeds thr (col_dtype (series (snd item) ''difference'')) d \<and>
               (f = fst (snd (fst item)) \<or> f = snd (snd (fst item))))))) \<and>
   add_rows rf ofn vals rows0 = rows0 \<union> {(f, v). v \<in> set vals \<and> (f = rf \<or> f = ofn)} \<and>
   (exceeds (Num t) Float64 (Num d) \<longleftrightarrow> t < \<bar>d\<bar>) \<and>
   \<not> exceeds thr Float64 NaN \<and> \<not> exceeds thr Int64 NaN \<and> \<not> exceeds NaN dt x \<and>
   (perform_column_comparison tables key = Inr (res, ws) \<longrightarrow>
      (\<forall>item \<in> set res. wf_series key (snd item)))"
proof (intro conjI impI)
  assume wf: "\<forall>item \<in> set results. wf_series key (snd item)"
  from highlight_rows_wf[OF wf, of thr "{}"] obtain rows where
    r: "highlight_rows thr key results {} = Inr rows" and
    s: "rows = {} \<union> {(f, v). \<exists>item \<in> set results. \<exists>d.
                (v, d) \<in> set (series_entries key (snd item)) \<and>
                exceeds thr (col_dtype (series (snd item) ''difference'')) d \<and>
                (f = fst (snd (fst item)) \<or> f = snd (snd (fst item)))}"
    by blast
  have "\<forall>f v. (f, v) \<in> rows \<longleftrightarrow>
            (\<exists>item \<in> set results. \<exists>d.
               (v, d) \<in> set (series_entries key (snd item)) \<and>
               exceeds thr (col_dtype (series (snd item) ''difference'')) d \<and>
               (f = fst (snd (fst item)) \<or> f = snd (snd (fst item))))"
    unfolding s by simp
  with r show "\<exists>rows. rows_to_highlight_map results key thr = Inr rows \<and>
         (\<forall>f v. (f, v) \<in> rows \<longleftrightarrow>
            (\<exists>item \<in> set results. \<exists>d.
               (v, d) \<in> set (series_entries key (snd item)) \<and>
               exceeds thr (col_dtype (series (snd item) ''difference'')) d \<and>
               (f = fst (snd (fst item)) \<or> f = snd (snd (fst item)))))"
    unfolding rows_to_highlight_map_def by blast
next
  show "add_rows rf ofn vals rows0 = rows0 \<union> {(f, v). v \<in> set vals \<and> (f = rf \<or> f = ofn)}"
    by (rule add_rows_set)
next
  show "exceeds (Num t) Float64 (Num d) \<longleftrightarrow> t < \<bar>d\<bar>" by (simp add: exceeds_def float_less_def)
next
  show "\<not> exceeds thr Float64 NaN" by (cases thr) (simp_all add: exceeds_def float_less_def)
next
  show "\<not> exceeds thr Int64 NaN" by (simp add: exceeds_def)
next
  show "\<not> exceeds NaN dt x" by (cases x) (simp_all add: exceeds_def float_less_def)
next
  assume "perform_column_comparison tables key = Inr (res, ws)"
  then show "\<forall>item \<in> set res. wf_series key (snd item)"
    by (rule comparison_results_wf)
qed

lemma highlight_sample:
  "rows_to_highlight_map sample_results ''op_col'' (Num 1) =
     Inr {(''file1.csv'', Num 3), (''file2.csv'', Num 3)}"
  by code_simp

text \<open>
  C2, at the tables \<open>least_ref\<close> and \<open>least_oth\<close> and the threshold 5. The reference cell
  is \<open>-9223372036854775808\<close> and the other cell is 0. The stored difference is
  \<open>-9223372036854775808\<close>: the subtraction gives the least int64, and its absolute value in
  int64 is the number itself. The report takes the absolute value in int64 again, compares
  a negative number with 5, and highlights nothing, although the absolute value of the
  entry's difference is greater than 5. With the reference cell
  \<open>-9223372036854775807\<close>, next to it, the difference is \<open>9223372036854775807\<close> and both
  files are highlighted.
\<close>

theorem least_int64_not_highlighted:
  "perform_column_comparison [least_ref, least_oth] ''id'' =
     Inr ([((''v'', ''ref.csv'', ''oth.csv''),
            [(''id'', Col Int64 [Num 1]),
             (''difference'', Col Int64 [Num (- 9223372036854775808)])])], []) \<and>
   (5 :: real) < \<bar>- 9223372036854775808\<bar> \<and>
   \<not> exceeds (Num 5) Int64 (Num (- 9223372036854775808)) \<and>
   rows_to_highlight_map
     [((''v'', ''ref.csv'', ''oth.csv''),
       [(''id'', Col Int64 [Num 1]),
        (''difference'', Col Int64 [Num (- 9223372036854775808)])])] ''id'' (Num 5) = Inr {} \<and>
   perform_column_comparison [next_ref, least_oth] ''id'' =
     Inr ([((''v'', ''ref.csv'', ''oth.csv''),
            [(''id'', Col Int64 [Num 1]),
             (''difference'', Col Int64 [Num 9223372036854775807])])], []) \<and>
   rows_to_highlight_map
     [((''v'', ''ref.csv'', ''oth.csv''),
       [(''id'', Col Int64 [Num 1]),
        (''difference'', Col Int64 [Num 9223372036854775807])])] ''id'' (Num 5) =
     Inr {(''ref.csv'', Num 1), (''oth.csv'', Num 1)}"
  by code_simp

section \<open>Properties of the parser\<close>


lemma read_file_round_result:
  "snd (read_file_round lib f locals) =
     (case f of
        Absent \<Rightarrow> Inl FileNotFound
      | _ \<Rightarrow>
          if is_likely_binary_from_chunk f 1024 then Inl BinaryFile
          else
            (case f of
               File b \<Rightarrow>
                 (case try_encodings lib b encodings_to_try (None, []) of
                    (None, parse_error_messages) \<Rightarrow> Inl (CouldNotParse parse_error_messages)
                  | (Some best, parse_error_messages) \<Rightarrow>
                      (let best_df_for_file = fix_oversplit lib b best
                       in if df_empty best_df_for_file \<and> length (columns best_df_for_file) = 0
                          then Inl EmptyTable
                          else Inr best_df_for_file))
             | _ \<Rightarrow> Inl BinaryFile))"
  by (cases f) (auto simp: read_file_round_def Let_def split: prod.splits option.splits)

lemma read_file_unfold:
  "read_file lib f =
     (case f of
        Absent \<Rightarrow> Inl FileNotFound
      | _ \<Rightarrow>
          if is_likely_binary_from_chunk f 1024 then Inl BinaryFile
          else
            (case f of
               File b \<Rightarrow>
                 (case try_encodings lib b encodings_to_try (None, []) of
                    (None, parse_error_messages) \<Rightarrow> Inl (CouldNotParse parse_error_messages)
                  | (Some best, parse_error_messages) \<Rightarrow>
                      (let best_df_for_file = fix_oversplit lib b best
                       in if df_empty best_df_for_file \<and> length (columns best_df_for_file) = 0
                          then Inl EmptyTable
                          else Inr best_df_for_file))
             | _ \<Rightarrow> Inl BinaryFile))"
  by (simp only: read_file_def read_file_round_result)

lemma read_file_round_any: "snd (read_file_round lib f locals) = read_file lib f"
  by (simp only: read_file_unfold read_file_round_result)

lemma read_file_binary: "null_in_prefix b \<Longrightarrow> read_file lib (File b) = Inl BinaryFile"
  by (simp add: read_file_unfold is_likely_binary_from_chunk_def null_in_prefix_def)

lemma read_files_eq:
  "snd (read_files lib fs names st) =
     (fst (snd st) @ concat (map (parsed_entry lib fs) names),
      snd (snd st) @ concat (map (failed_entry lib fs) names))"
proof (induction names arbitrary: st)
  case Nil
  then show ?case by simp
next
  case (Cons name rest)
  obtain locals r where step: "read_file_round lib (fs name) (fst st) = (locals, r)"
    by (cases "read_file_round lib (fs name) (fst st)") auto
  then have r: "read_file lib (fs name) = r"
    using read_file_round_any[of lib "fs name" "fst st"] by simp
  show ?case
  proof (cases r)
    case (Inl e)
    have "read_files lib fs (name # rest) st =
        read_files lib fs rest (locals, (fst (snd st), snd (snd st) @ [(name, e)]))"
      by (simp add: step Inl)
    with Cons.IH[of "(locals, (fst (snd st), snd (snd st) @ [(name, e)]))"] r Inl
    show ?thesis by (simp add: parsed_entry_def failed_entry_def)
  next
    case (Inr df)
    have "read_files lib fs (name # rest) st =
        read_files lib fs rest (locals, (fst (snd st) @ [(name, df)], snd (snd st)))"
      by (simp add: step Inr)
    with Cons.IH[of "(locals, (fst (snd st) @ [(name, df)], snd (snd st)))"] r Inr
    show ?thesis by (simp add: parsed_entry_def failed_entry_def)
  qed
qed

lemma read_csv_files_eq:
  "read_csv_files lib fs names =
     (concat (map (parsed_entry lib fs) names), concat (map (failed_entry lib fs) names))"
  by (simp add: read_csv_files_def read_files_eq)

lemma parsed_mem:
  "(n, df) \<in> set (fst (read_csv_files lib fs names)) \<longleftrightarrow> n \<in> set names \<and> read_file lib (fs n) = Inr df"
  by (auto simp: read_csv_files_eq parsed_entry_def split: sum.splits)

lemma failed_mem:
  "(n, e) \<in> set (snd (read_csv_files lib fs names)) \<longleftrightarrow> n \<in> set names \<and> read_file lib (fs n) = Inl e"
  by (auto simp: read_csv_files_eq failed_entry_def split: sum.splits)

lemma strip_bom_length: "length (columns (strip_bom_labels enc df)) = length (columns df)"
  by (simp add: strip_bom_labels_def columns_def)

lemma strip_bom_nrows: "nrows (strip_bom_labels enc df) = nrows df"
  by (cases df) (auto simp: strip_bom_labels_def nrows_def)

lemma try_parse_sniff_multi:
  "read_csv lib Sniff enc b = Inr df \<Longrightarrow> length (columns df) > 1 \<Longrightarrow>
   try_parse_csv_with_encoding lib b enc delims = Inr (Some df)"
  by (simp add: try_parse_csv_with_encoding_def)

lemma try_parse_header_resplit:
  "read_csv lib Sniff enc b = Inr [(h, c)] \<Longrightarrow> col_cells c = [] \<Longrightarrow> CHR '','' \<in> set h \<Longrightarrow>
   read_csv lib (Sep (CHR '','')) enc b = Inr df \<Longrightarrow> length (columns df) > 1 \<Longrightarrow>
   try_parse_csv_with_encoding lib b enc common_delimiters = Inr (Some df)"
  by (simp add: try_parse_csv_with_encoding_def columns_def nrows_def common_delimiters_def)

lemma try_encodings_first_multi:
  "try_parse_csv_with_encoding lib b Utf8Sig common_delimiters = Inr (Some df) \<Longrightarrow>
   length (columns df) > 1 \<Longrightarrow>
   try_encodings lib b encodings_to_try (None, []) = (Some (strip_bom_labels Utf8Sig df), [])"
  by (simp add: encodings_to_try_def Let_def strip_bom_length)

lemma read_file_text:
  "\<not> null_in_prefix b \<Longrightarrow>
   read_file lib (File b) =
     (case try_encodings lib b encodings_to_try (None, []) of
        (None, msgs) \<Rightarrow> Inl (CouldNotParse msgs)
      | (Some best, msgs) \<Rightarrow>
          if columns (fix_oversplit lib b best) = [] then Inl EmptyTable
          else Inr (fix_oversplit lib b best))"
  by (auto simp: read_file_unfold is_likely_binary_from_chunk_def null_in_prefix_def Let_def df_empty_def
      split: option.splits prod.splits)

lemma fix_oversplit_no_rows: "nrows best = 0 \<Longrightarrow> fix_oversplit lib b best = best"
  by (simp add: fix_oversplit_def)

lemma fix_oversplit_few_columns: "length (columns best) \<le> 1 \<Longrightarrow> fix_oversplit lib b best = best"
  by (simp add: fix_oversplit_def)

lemma fix_oversplit_cases:
  "length (columns best) > 1 \<Longrightarrow> has_no_common_delimiters_in_content lib b \<Longrightarrow>
   fix_oversplit lib b best =
     (if nrows best > 0
      then (case read_csv_headerless lib Utf8Sig b of Inr c \<Rightarrow> [(''data'', c)] | Inl e \<Rightarrow> best)
      else best)"
  by (simp add: fix_oversplit_def columns_def encodings_to_try_def split: sum.splits)

text \<open>
  C4. A file with a null byte among its first 1024 bytes is rejected as binary, whatever
  the decoding and parsing library would do with it: the result is the same for every
  library, so the library is not consulted. In the result of the whole function the file
  name has the binary diagnostic and no other, and no parsed table.
\<close>

theorem binary_rejected:
  "(null_in_prefix b \<longrightarrow>
      read_file lib (File b) = Inl BinaryFile \<and> read_file lib (File b) = read_file lib2 (File b)) \<and>
   (fs name = File b \<and> null_in_prefix b \<and> name \<in> set names \<longrightarrow>
      (name, BinaryFile) \<in> set (snd (read_csv_files lib fs names)) \<and>
      (\<forall>e. (name, e) \<in> set (snd (read_csv_files lib fs names)) \<longrightarrow> e = BinaryFile) \<and>
      (\<forall>df. (name, df) \<notin> set (fst (read_csv_files lib fs names))))"
  by (auto simp: read_file_binary parsed_mem failed_mem)

theorem binary_rejected_witness:
  "null_in_prefix null_byte_file \<and>
   read_file toy_lib (File null_byte_file) = Inl BinaryFile \<and>
   read_file blank_lib (File null_byte_file) = Inl BinaryFile \<and>
   fs_one ''bin.csv'' = File null_byte_file \<and>
   read_csv_files toy_lib fs_one [''bin.csv'', ''a.csv''] =
     ([(''a.csv'', id_value_frame)], [(''bin.csv'', BinaryFile)])"
proof -
  have n: "null_in_prefix null_byte_file" by code_simp
  have f: "fs_one ''bin.csv'' = File null_byte_file" by code_simp
  have run: "read_csv_files toy_lib fs_one [''bin.csv'', ''a.csv''] =
     ([(''a.csv'', id_value_frame)], [(''bin.csv'', BinaryFile)])" by code_simp
  from binary_rejected [where b=null_byte_file and lib=toy_lib and ?lib2.0=blank_lib
      and fs=fs_one and name="''bin.csv''" and names="[''bin.csv'', ''a.csv'']"] n
  have t: "read_file toy_lib (File null_byte_file) = Inl BinaryFile"
    and "read_file toy_lib (File null_byte_file) = read_file blank_lib (File null_byte_file)"
    by blast+
  then have "read_file toy_lib (File null_byte_file) = Inl BinaryFile"
    "read_file blank_lib (File null_byte_file) = Inl BinaryFile" by simp_all
  with n f run show ?thesis by simp
qed

text \<open>
  C6. For a file without a null byte in its prefix: when the automatic detection under
  the first encoding returns a frame with more than one column and no rows, that frame is
  the result, with the byte-order mark removed from its labels; the same holds when the
  detection returns the whole header as one label with a comma in it and the parse with the
  comma returns such a frame. In general a best frame with at least one column and no rows
  is returned as a table, and a best frame without columns is rejected with the
  empty-table diagnostic, which differs from the three other diagnostics.
\<close>

theorem header_only_valid:
  "(\<not> null_in_prefix b \<and> read_csv lib Sniff Utf8Sig b = Inr df \<and>
    length (columns df) > 1 \<and> nrows df = 0 \<longrightarrow>
      read_file lib (File b) = Inr (strip_bom_labels Utf8Sig df)) \<and>
   (\<not> null_in_prefix b \<and> read_csv lib Sniff Utf8Sig b = Inr [(h, c)] \<and> col_cells c = [] \<and>
    CHR '','' \<in> set h \<and> read_csv lib (Sep (CHR '','')) Utf8Sig b = Inr df \<and>
    length (columns df) > 1 \<and> nrows df = 0 \<longrightarrow>
      read_file lib (File b) = Inr (strip_bom_labels Utf8Sig df)) \<and>
   (\<not> null_in_prefix b \<and> try_encodings lib b encodings_to_try (None, []) = (Some best, msgs) \<and>
    columns best \<noteq> [] \<and> nrows best = 0 \<longrightarrow>
      read_file lib (File b) = Inr best) \<and>
   (\<not> null_in_prefix b \<and> try_encodings lib b encodings_to_try (None, []) = (Some best, msgs) \<and>
    columns best = [] \<longrightarrow>
      read_file lib (File b) = Inl EmptyTable) \<and>
   EmptyTable \<noteq> FileNotFound \<and> EmptyTable \<noteq> BinaryFile \<and> EmptyTable \<noteq> CouldNotParse msgs"
proof (intro conjI impI)
  assume a: "\<not> null_in_prefix b \<and> read_csv lib Sniff Utf8Sig b = Inr df \<and>
    length (columns df) > 1 \<and> nrows df = 0"
  then have "try_parse_csv_with_encoding lib b Utf8Sig common_delimiters = Inr (Some df)"
    by (simp add: try_parse_sniff_multi)
  with a have "try_encodings lib b encodings_to_try (None, []) = (Some (strip_bom_labels Utf8Sig df), [])"
    by (simp add: try_encodings_first_multi)
  moreover have "columns (strip_bom_labels Utf8Sig df) \<noteq> []"
    using a strip_bom_length[of Utf8Sig df] by auto
  ultimately show "read_file lib (File b) = Inr (strip_bom_labels Utf8Sig df)"
    using a by (simp add: read_file_text fix_oversplit_no_rows strip_bom_nrows)
next
  assume a: "\<not> null_in_prefix b \<and> read_csv lib Sniff Utf8Sig b = Inr [(h, c)] \<and> col_cells c = [] \<and>
    CHR '','' \<in> set h \<and> read_csv lib (Sep (CHR '','')) Utf8Sig b = Inr df \<and>
    length (columns df) > 1 \<and> nrows df = 0"
  then have "try_parse_csv_with_encoding lib b Utf8Sig common_delimiters = Inr (Some df)"
    using try_parse_header_resplit[of lib Utf8Sig b h c df] by blast
  with a have "try_encodings lib b encodings_to_try (None, []) = (Some (strip_bom_labels Utf8Sig df), [])"
    by (simp add: try_encodings_first_multi)
  moreover have "columns (strip_bom_labels Utf8Sig df) \<noteq> []"
    using a strip_bom_length[of Utf8Sig df] by auto
  ultimately show "read_file lib (File b) = Inr (strip_bom_labels Utf8Sig df)"
    using a by (simp add: read_file_text fix_oversplit_no_rows strip_bom_nrows)
next
  assume "\<not> null_in_prefix b \<and> try_encodings lib b encodings_to_try (None, []) = (Some best, msgs) \<and>
    columns best \<noteq> [] \<and> nrows best = 0"
  then show "read_file lib (File b) = Inr best"
    by (simp add: read_file_text fix_oversplit_no_rows)
next
  assume a: "\<not> null_in_prefix b \<and> try_encodings lib b encodings_to_try (None, []) = (Some best, msgs) \<and>
    columns best = []"
  then have "fix_oversplit lib b best = best" by (simp add: fix_oversplit_few_columns)
  with a show "read_file lib (File b) = Inl EmptyTable"
    by (simp add: read_file_text)
qed simp_all

theorem header_only_valid_witness:
  "\<not> null_in_prefix header_only_file \<and>
   read_csv toy_lib Sniff Utf8Sig header_only_file = Inr abc_frame \<and>
   length (columns abc_frame) = 3 \<and> nrows abc_frame = 0 \<and>
   strip_bom_labels Utf8Sig abc_frame = abc_frame \<and>
   try_encodings toy_lib header_only_file encodings_to_try (None, []) = (Some abc_frame, []) \<and>
   read_file toy_lib (File header_only_file) = Inr abc_frame \<and>
   read_csv unsniffing_lib Sniff Utf8Sig header_only_file = Inr [(''a,b,c'', Col Object [])] \<and>
   read_csv unsniffing_lib (Sep (CHR '','')) Utf8Sig header_only_file = Inr abc_frame \<and>
   read_file unsniffing_lib (File header_only_file) = Inr abc_frame \<and>
   try_encodings blank_lib header_only_file encodings_to_try (None, []) = (Some [], []) \<and>
   read_file blank_lib (File header_only_file) = Inl EmptyTable"
proof -
  have n: "\<not> null_in_prefix header_only_file" by code_simp
  have s: "read_csv toy_lib Sniff Utf8Sig header_only_file = Inr abc_frame" by code_simp
  have l: "length (columns abc_frame) = 3" "nrows abc_frame = 0" by code_simp+
  have sb: "strip_bom_labels Utf8Sig abc_frame = abc_frame" by code_simp
  have u1: "read_csv unsniffing_lib Sniff Utf8Sig header_only_file = Inr [(''a,b,c'', Col Object [])]"
    by code_simp
  have u2: "read_csv unsniffing_lib (Sep (CHR '','')) Utf8Sig header_only_file = Inr abc_frame"
    by code_simp
  have u3: "CHR '','' \<in> set ''a,b,c''" by simp
  have bl: "try_encodings blank_lib header_only_file encodings_to_try (None, []) = (Some [], [])"
    by code_simp
  note A = header_only_valid [where b=header_only_file and lib=toy_lib and df=abc_frame]
  note B = header_only_valid [where b=header_only_file and lib=unsniffing_lib and df=abc_frame
      and h="''a,b,c''" and c="Col Object []"]
  note C = header_only_valid [where b=header_only_file and lib=blank_lib and best="[]" and msgs="[]"]
  from A n s l have r1: "read_file toy_lib (File header_only_file) = Inr abc_frame"
    by (simp add: sb)
  from B n u1 u2 u3 l have r2: "read_file unsniffing_lib (File header_only_file) = Inr abc_frame"
    by (simp add: sb)
  from C n bl have r3: "read_file blank_lib (File header_only_file) = Inl EmptyTable"
    by (simp add: columns_def)
  have te: "try_encodings toy_lib header_only_file encodings_to_try (None, []) = (Some abc_frame, [])"
    by code_simp
  have ne: "columns abc_frame \<noteq> []" by code_simp
  note D = header_only_valid [where b=header_only_file and lib=toy_lib and best=abc_frame and msgs="[]"]
  from D n te ne l have "read_file toy_lib (File header_only_file) = Inr abc_frame"
    by blast
  with n s l sb te u1 u2 r2 bl r3 show ?thesis by blast
qed

text \<open>
  C7, amended. For a file without a null byte in its prefix whose best frame has more
  than one column, and whose first lines, read under the first encoding, hold none of the
  four delimiter candidates (lines that cannot be read count as no lines): when the best
  frame has at least one row, the file is parsed again under the first encoding, without a
  header and with the bell character as separator, and the result is the single column
  that pandas returns for that parse, labelled \<open>data\<close>; when that parse raises, and when
  the best frame has no rows, the result is the best frame with its columns.
\<close>

theorem oversplit_corrected:
  "\<not> null_in_prefix b \<and> try_encodings lib b encodings_to_try (None, []) = (Some best, msgs) \<and>
   length (columns best) > 1 \<and> has_no_common_delimiters_in_content lib b \<longrightarrow>
     read_file lib (File b) =
       (if nrows best > 0
        then (case read_csv_headerless lib Utf8Sig b of
                Inr c \<Rightarrow> Inr [(''data'', c)]
              | Inl e \<Rightarrow> Inr best)
        else Inr best)"
proof
  assume a: "\<not> null_in_prefix b \<and> try_encodings lib b encodings_to_try (None, []) = (Some best, msgs) \<and>
   length (columns best) > 1 \<and> has_no_common_delimiters_in_content lib b"
  then have f: "fix_oversplit lib b best =
     (if nrows best > 0
      then (case read_csv_headerless lib Utf8Sig b of Inr c \<Rightarrow> [(''data'', c)] | Inl e \<Rightarrow> best)
      else best)"
    by (simp add: fix_oversplit_cases)
  from a have ne: "columns best \<noteq> []" by auto
  show "read_file lib (File b) =
       (if nrows best > 0
        then (case read_csv_headerless lib Utf8Sig b of
                Inr c \<Rightarrow> Inr [(''data'', c)]
              | Inl e \<Rightarrow> Inr best)
        else Inr best)"
    using a ne by (simp add: read_file_text f columns_def split: sum.splits)
qed

theorem oversplit_corrected_witness:
  "\<not> null_in_prefix spaced_table_file \<and>
   try_encodings toy_lib spaced_table_file encodings_to_try (None, []) = (Some xy_frame, []) \<and>
   length (columns xy_frame) = 2 \<and> nrows xy_frame = 1 \<and>
   has_no_common_delimiters_in_content toy_lib spaced_table_file \<and>
   read_csv_headerless toy_lib Utf8Sig spaced_table_file = Inr (Col Object [Str ''x y'', Str ''1 2'']) \<and>
   read_file toy_lib (File spaced_table_file) = Inr [(''data'', Col Object [Str ''x y'', Str ''1 2''])]"
proof -
  have n: "\<not> null_in_prefix spaced_table_file" by code_simp
  have t: "try_encodings toy_lib spaced_table_file encodings_to_try (None, []) = (Some xy_frame, [])"
    by code_simp
  have l: "length (columns xy_frame) = 2" "nrows xy_frame = 1" by code_simp+
  have d: "has_no_common_delimiters_in_content toy_lib spaced_table_file" by code_simp
  have r: "read_csv_headerless toy_lib Utf8Sig spaced_table_file = Inr (Col Object [Str ''x y'', Str ''1 2''])"
    by code_simp
  from oversplit_corrected [where b=spaced_table_file and lib=toy_lib and best=xy_frame and msgs="[]"]
    n t d r l
  have "read_file toy_lib (File spaced_table_file) = Inr [(''data'', Col Object [Str ''x y'', Str ''1 2''])]"
    by simp
  with n t l d r show ?thesis by blast
qed

text \<open>
  C7 as stated fails in three ways, at three files without any of the four delimiter
  candidates.
  \<^item> The file \<open>a b c\<close>: the best frame has the three columns \<open>a\<close>, \<open>b\<close> and \<open>c\<close> and no
    rows, and the result is that frame, not a single column.
  \<^item> The file with the lines \<open>x y\<close> and \<open>1 \<close> followed by the byte \<open>0xE9\<close>: it cannot be
    read as UTF-8, so its best frame, with two columns and one row, comes from Latin-1; the
    sample of lines and the second parse are read as UTF-8, the sample is empty, the
    second parse raises, and the result is the frame with two columns.
  \<^item> The file with the three lines \<open>x y\<close>, an empty line, and \<open>1 2\<close>: the result is a
    single column, labelled \<open>data\<close>, with the two rows that the second parse returns; the
    empty line is not among them.
\<close>

theorem oversplit_corrected_counterexample:
  "\<not> null_in_prefix spaced_header_file \<and>
   try_encodings toy_lib spaced_header_file encodings_to_try (None, []) = (Some abc_frame, []) \<and>
   length (columns abc_frame) = 3 \<and>
   has_no_common_delimiters_in_content toy_lib spaced_header_file \<and>
   read_file toy_lib (File spaced_header_file) = Inr abc_frame \<and>
   \<not> null_in_prefix latin1_table_file \<and>
   try_encodings toy_lib latin1_table_file encodings_to_try (None, []) = (Some latin1_frame, []) \<and>
   length (columns latin1_frame) = 2 \<and> nrows latin1_frame = 1 \<and>
   \<not> list_ex (\<lambda>delim. delim \<in> set latin1_table_file) common_delimiters \<and>
   get_file_lines toy_lib latin1_table_file Utf8Sig 5 = None \<and>
   has_no_common_delimiters_in_content toy_lib latin1_table_file \<and>
   read_csv_headerless toy_lib Utf8Sig latin1_table_file = Inl OtherError \<and>
   read_file toy_lib (File latin1_table_file) = Inr latin1_frame \<and>
   \<not> null_in_prefix gapped_table_file \<and>
   try_encodings toy_lib gapped_table_file encodings_to_try (None, []) = (Some xy_frame, []) \<and>
   get_file_lines toy_lib gapped_table_file Utf8Sig 5 = Some [''x y'', [], ''1 2''] \<and>
   has_no_common_delimiters_in_content toy_lib gapped_table_file \<and>
   read_file toy_lib (File gapped_table_file) = Inr [(''data'', Col Object [Str ''x y'', Str ''1 2''])] \<and>
   columns [(''data'', Col Object [Str ''x y'', Str ''1 2''])] = [''data''] \<and>
   nrows [(''data'', Col Object [Str ''x y'', Str ''1 2''])] = 2 \<and>
   length [''x y'', [], ''1 2''] = 3"
  by code_simp

text \<open>
  C8. \<open>best_df_for_file\<close> and \<open>parse_error_messages\<close> are the only state of the function
  that passes from one file to the next, and pandas and the file reads are taken as
  functions of their arguments and of the bytes of the file. What a round appends for a
  file does not depend on what the round before left in the two variables: it is the
  result for the file with fresh variables. So the result of the whole function, started
  with anything in the two variables, is the list of the results of the single files, and
  two runs, on any two lists of names, any two file systems and any two starting values of
  the variables, give the same table for two names under which the file systems hold the
  same, and one has a table for the name exactly when the other has.
\<close>

theorem parse_deterministic:
  "snd (read_file_round lib f locals1) = snd (read_file_round lib f locals2) \<and>
   snd (read_file_round lib f locals1) = read_file lib f \<and>
   snd (read_files lib fs names (locals, ([], []))) = read_csv_files lib fs names \<and>
   (fs1 n1 = fs2 n2 \<and>
    (n1, df1) \<in> set (fst (snd (read_files lib fs1 names1 (locals1, ([], []))))) \<and>
    (n2, df2) \<in> set (fst (snd (read_files lib fs2 names2 (locals2, ([], []))))) \<longrightarrow> df1 = df2) \<and>
   (fs1 n1 = fs2 n2 \<and> n1 \<in> set names1 \<and> n2 \<in> set names2 \<longrightarrow>
      ((\<exists>df. (n1, df) \<in> set (fst (snd (read_files lib fs1 names1 (locals1, ([], [])))))) \<longleftrightarrow>
       (\<exists>df. (n2, df) \<in> set (fst (snd (read_files lib fs2 names2 (locals2, ([], []))))))))"
proof -
  have run: "snd (read_files lib fs names (locals, ([], []))) = read_csv_files lib fs names"
    for fs names locals
    by (simp add: read_files_eq read_csv_files_eq)
  show ?thesis
    by (simp only: run read_file_round_any) (auto simp: parsed_mem)
qed

theorem parse_deterministic_witness:
  "fs_one ''a.csv'' = fs_two ''a.csv'' \<and>
   read_files toy_lib fs_one [''bin.csv'', ''a.csv''] ((Some abc_frame, [(Latin1, ParserError)]), ([], [])) =
     ((Some id_value_frame, []), ([(''a.csv'', id_value_frame)], [(''bin.csv'', BinaryFile)])) \<and>
   read_files toy_lib fs_two [''s.txt'', ''a.csv'', ''h.csv'', ''a.csv''] ((None, []), ([], [])) =
     ((Some id_value_frame, []),
      ([(''s.txt'', [(''data'', Col Object [Str ''x y'', Str ''1 2''])]), (''a.csv'', id_value_frame),
        (''h.csv'', abc_frame), (''a.csv'', id_value_frame)], [])) \<and>
   read_file_round toy_lib (File id_value_file) (Some xy_frame, [(Utf8, OtherError)]) =
     ((Some id_value_frame, []), Inr id_value_frame) \<and>
   read_file toy_lib (File id_value_file) = Inr id_value_frame"
proof -
  have e: "fs_one ''a.csv'' = fs_two ''a.csv''" by code_simp
  have r1: "read_files toy_lib fs_one [''bin.csv'', ''a.csv''] ((Some abc_frame, [(Latin1, ParserError)]), ([], [])) =
     ((Some id_value_frame, []), ([(''a.csv'', id_value_frame)], [(''bin.csv'', BinaryFile)]))" by code_simp
  have r2: "read_files toy_lib fs_two [''s.txt'', ''a.csv'', ''h.csv'', ''a.csv''] ((None, []), ([], [])) =
     ((Some id_value_frame, []),
      ([(''s.txt'', [(''data'', Col Object [Str ''x y'', Str ''1 2''])]), (''a.csv'', id_value_frame),
        (''h.csv'', abc_frame), (''a.csv'', id_value_frame)], []))"
    by code_simp
  have r3: "read_file_round toy_lib (File id_value_file) (Some xy_frame, [(Utf8, OtherError)]) =
     ((Some id_value_frame, []), Inr id_value_frame)" by code_simp
  have m1: "(''a.csv'', id_value_frame) \<in> set (fst (snd (read_files toy_lib fs_one [''bin.csv'', ''a.csv'']
      ((Some abc_frame, [(Latin1, ParserError)]), ([], [])))))"
    unfolding r1 by simp
  obtain df2 where m2: "(''a.csv'', df2) \<in> set (fst (snd (read_files toy_lib fs_two
      [''s.txt'', ''a.csv'', ''h.csv'', ''a.csv''] ((None, []), ([], [])))))"
    unfolding r2 by auto
  note T = parse_deterministic [where lib=toy_lib and ?fs1.0=fs_one and ?fs2.0=fs_two
      and ?n1.0="''a.csv''" and ?n2.0="''a.csv''" and ?df1.0=id_value_frame and ?df2.0=df2
      and ?names1.0="[''bin.csv'', ''a.csv'']" and ?names2.0="[''s.txt'', ''a.csv'', ''h.csv'', ''a.csv'']"
      and ?locals1.0="(Some abc_frame, [(Latin1, ParserError)])" and ?locals2.0="(None, [])"
      and f="File id_value_file"]
  from T e m1 m2 have "id_value_frame = df2" by blast
  note U = parse_deterministic [where lib=toy_lib and f="File id_value_file"
      and ?locals1.0="(Some xy_frame, [(Utf8, OtherError)])"]
  from U r3 have "read_file toy_lib (File id_value_file) = Inr id_value_frame" by simp
  with e r1 r2 r3 show ?thesis by blast
qed

end
